theory Spec2Isabelle
  imports
    Main
    "HOL-Library.Char_ord"
    "HOL-Library.List_Lexorder"
    "HOL-Library.Multiset"
    "HOL-Library.Sublist"
begin

section \<open>Python values read by the program\<close>

text \<open>
  The booking records and the token file are JSON objects decoded by Python. The fields
  the program reads are scalars in the booking service's schema: null, booleans,
  integers and strings. They are the values of the model. JSON arrays, objects and
  floating-point numbers do not occur in the fields read here and are outside the model:
  every statement below ranges over records whose fields are scalars (a list or a dict
  in an identifier field would be unhashable, and the dict lookup or the set membership
  test on it would raise TypeError).
  A Python \<^verbatim>\<open>str\<close> is a \<open>string\<close> of bytes (its UTF-8 encoding); comparing byte
  strings lexicographically agrees with Python's comparison by code point.
\<close>

datatype json = JNull | JBool bool | JInt int | JStr string

text \<open>A decoded JSON object: a Python dict with string keys.\<close>

type_synonym pydict = "(string \<times> json) list"

datatype py_error =
    TypeError
  | ValueError
  | OverflowError
  | KeyError string
  | RequestException string

text \<open>\<^verbatim>\<open>d.get(k)\<close> and \<^verbatim>\<open>d.get(k, default)\<close>: a key bound to null yields null, not the default.\<close>

definition dict_get :: "pydict \<Rightarrow> string \<Rightarrow> json" where
  "dict_get d k = (case map_of d k of Some v \<Rightarrow> v | None \<Rightarrow> JNull)"

definition dict_get_default :: "pydict \<Rightarrow> string \<Rightarrow> json \<Rightarrow> json" where
  "dict_get_default d k dflt = (case map_of d k of Some v \<Rightarrow> v | None \<Rightarrow> dflt)"

text \<open>\<^verbatim>\<open>d[k]\<close> raises KeyError on a missing key.\<close>

definition dict_item :: "pydict \<Rightarrow> string \<Rightarrow> py_error + json" where
  "dict_item d k = (case map_of d k of Some v \<Rightarrow> Inr v | None \<Rightarrow> Inl (KeyError k))"

text \<open>Truth value of a Python object, as tested by \<^verbatim>\<open>if x\<close>, \<^verbatim>\<open>x or y\<close>, \<^verbatim>\<open>not x\<close>.\<close>

fun truthy :: "json \<Rightarrow> bool" where
  "truthy JNull = False"
| "truthy (JBool b) = b"
| "truthy (JInt n) = (n \<noteq> 0)"
| "truthy (JStr s) = (s \<noteq> [])"

definition py_or :: "json \<Rightarrow> json \<Rightarrow> json" where
  "py_or a b = (if truthy a then a else b)"

text \<open>
  Python's \<^verbatim>\<open>==\<close> on these values: booleans are the integers 0 and 1, values of
  different kinds are unequal. Hashing agrees with it, so it is also the key equality of
  dicts and sets.
\<close>

fun num_val :: "json \<Rightarrow> int option" where
  "num_val (JBool b) = Some (if b then 1 else 0)"
| "num_val (JInt n) = Some n"
| "num_val _ = None"

fun py_eq :: "json \<Rightarrow> json \<Rightarrow> bool" where
  "py_eq JNull JNull = True"
| "py_eq (JStr s) (JStr t) = (s = t)"
| "py_eq a b = (case (num_val a, num_val b) of (Some m, Some n) \<Rightarrow> m = n | _ \<Rightarrow> False)"

subsection \<open>Characters, whitespace and decimal numerals\<close>

definition is_digit :: "char \<Rightarrow> bool" where
  "is_digit c = (CHR ''0'' \<le> c \<and> c \<le> CHR ''9'')"

definition digit_val :: "char \<Rightarrow> int" where
  "digit_val c = int (of_char c) - 48"

definition digit_char :: "nat \<Rightarrow> char" where
  "digit_char n = ''0123456789'' ! n"

text \<open>
  The ASCII characters for which \<^verbatim>\<open>str.isspace\<close> holds: tab, newline, vertical tab,
  form feed, carriage return, the separators 0x1c to 0x1f, and space.
\<close>

definition is_space :: "char \<Rightarrow> bool" where
  "is_space c = (let n = (of_char c :: nat) in (9 \<le> n \<and> n \<le> 13) \<or> (28 \<le> n \<and> n \<le> 32))"

definition strip :: "string \<Rightarrow> string" where
  "strip s = rev (dropWhile is_space (rev (dropWhile is_space s)))"

fun nat_digits :: "nat \<Rightarrow> string" where
  "nat_digits n = (if n < 10 then [digit_char n] else nat_digits (n div 10) @ [digit_char (n mod 10)])"

declare nat_digits.simps [simp del]

definition int_str :: "int \<Rightarrow> string" where
  "int_str i = (if i < 0 then CHR ''-'' # nat_digits (nat (- i)) else nat_digits (nat i))"

text \<open>\<^verbatim>\<open>str(x)\<close>, which is also how an f-string formats \<^verbatim>\<open>{x}\<close>.\<close>

fun py_str :: "json \<Rightarrow> string" where
  "py_str JNull = ''None''"
| "py_str (JBool b) = (if b then ''True'' else ''False'')"
| "py_str (JInt n) = int_str n"
| "py_str (JStr s) = s"

text \<open>
  \<^verbatim>\<open>int(x)\<close>. On a string: surrounding whitespace is dropped, a sign may lead, and the
  rest is decimal digits in which single underscores may separate digits. The whitespace
  that \<^verbatim>\<open>int\<close> drops is tab, newline, vertical tab, form feed, carriage return and
  space; the separators 0x1c to 0x1f, which \<^verbatim>\<open>str.strip\<close> removes, make it raise.
\<close>

definition is_int_space :: "char \<Rightarrow> bool" where
  "is_int_space c = (let n = (of_char c :: nat) in (9 \<le> n \<and> n \<le> 13) \<or> n = 32)"

definition strip_int :: "string \<Rightarrow> string" where
  "strip_int s = rev (dropWhile is_int_space (rev (dropWhile is_int_space s)))"

fun digits_value :: "int \<Rightarrow> string \<Rightarrow> int option" where
  "digits_value acc [] = Some acc"
| "digits_value acc [c] = (if is_digit c then Some (10 * acc + digit_val c) else None)"
| "digits_value acc (c # d # cs) =
     (if is_digit c then digits_value (10 * acc + digit_val c) (d # cs)
      else if c = CHR ''_'' \<and> is_digit d then digits_value acc (d # cs)
      else None)"

definition unsigned_value :: "string \<Rightarrow> int option" where
  "unsigned_value s = (case s of [] \<Rightarrow> None | c # cs \<Rightarrow> if is_digit c then digits_value 0 s else None)"

definition int_of_string :: "string \<Rightarrow> int option" where
  "int_of_string s =
     (case strip_int s of
        [] \<Rightarrow> None
      | c # cs \<Rightarrow>
          if c = CHR ''-'' then map_option uminus (unsigned_value cs)
          else if c = CHR ''+'' then unsigned_value cs
          else unsigned_value (c # cs))"

fun py_int :: "json \<Rightarrow> py_error + int" where
  "py_int JNull = Inl TypeError"
| "py_int (JBool b) = Inr (if b then 1 else 0)"
| "py_int (JInt n) = Inr n"
| "py_int (JStr s) = (case int_of_string s of Some n \<Rightarrow> Inr n | None \<Rightarrow> Inl ValueError)"

section \<open>Dates\<close>

text \<open>
  \<^verbatim>\<open>datetime.date\<close>: year, month, day. Two dates are equal when the three fields are,
  and ordered as the triples are. The day number (\<^verbatim>\<open>toordinal\<close>) counts from
  0001-01-01 as day 1.
\<close>

record date =
  year :: int
  month :: int
  day :: int

definition date_less :: "date \<Rightarrow> date \<Rightarrow> bool" where
  "date_less a b =
     (year a < year b \<or> (year a = year b \<and> (month a < month b \<or> (month a = month b \<and> day a < day b))))"

definition is_leap :: "int \<Rightarrow> bool" where
  "is_leap y = (y mod 4 = 0 \<and> (y mod 100 \<noteq> 0 \<or> y mod 400 = 0))"

definition days_in_month :: "int \<Rightarrow> int \<Rightarrow> int" where
  "days_in_month y m =
     (if m = 2 then (if is_leap y then 29 else 28)
      else if m = 4 \<or> m = 6 \<or> m = 9 \<or> m = 11 then 30 else 31)"

definition days_before_year :: "int \<Rightarrow> int" where
  "days_before_year y = (y - 1) * 365 + (y - 1) div 4 - (y - 1) div 100 + (y - 1) div 400"

definition days_before_month :: "int \<Rightarrow> int \<Rightarrow> int" where
  "days_before_month y m =
     [0, 31, 59, 90, 120, 151, 181, 212, 243, 273, 304, 334] ! nat (m - 1)
       + (if m > 2 \<and> is_leap y then 1 else 0)"

definition toordinal :: "date \<Rightarrow> int" where
  "toordinal d = days_before_year (year d) + days_before_month (year d) (month d) + day d"

text \<open>\<^verbatim>\<open>datetime.datetime\<close> (naive): a date and a time of day.\<close>

record datetime =
  dt_date :: date
  hour :: int
  minute :: int
  second :: int
  microsecond :: int

text \<open>
  \<^verbatim>\<open>a - b\<close> on two datetimes is the timedelta of the day, second and microsecond
  differences, normalised so that seconds and microseconds are non-negative; \<^verbatim>\<open>.days\<close>
  reads its day count. On two dates it is the difference of the day numbers.
\<close>

definition datetime_sub_days :: "datetime \<Rightarrow> datetime \<Rightarrow> int" where
  "datetime_sub_days a b =
     (let days = toordinal (dt_date a) - toordinal (dt_date b);
          secs = (second a + minute a * 60 + hour a * 3600) - (second b + minute b * 60 + hour b * 3600);
          us = microsecond a - microsecond b
      in days + (secs + us div 1000000) div 86400)"

definition date_sub_days :: "date \<Rightarrow> date \<Rightarrow> int" where
  "date_sub_days a b = toordinal a - toordinal b"

subsection \<open>Parsing with the format %Y-%m-%d\<close>

text \<open>
  \<^verbatim>\<open>datetime.strptime(s, '%Y-%m-%d')\<close> matches the text against the pattern
  \<^verbatim>\<open>(\d\d\d\d)-(1[0-2]|0[1-9]|[1-9])-(3[0-1]|[1-2]\d|0[1-9]|[1-9]| [1-9])\<close>,
  trying the alternatives from left to right, rejects text left over after the match,
  and then rejects a year, month and day that form no calendar date. Every rejection
  is a ValueError; an argument that is not a string is a TypeError.
\<close>

fun match_year :: "string \<Rightarrow> (int \<times> string) option" where
  "match_year (a # b # c # d # rest) =
     (if is_digit a \<and> is_digit b \<and> is_digit c \<and> is_digit d
      then Some (1000 * digit_val a + 100 * digit_val b + 10 * digit_val c + digit_val d, rest)
      else None)"
| "match_year _ = None"

definition in_range :: "char \<Rightarrow> char \<Rightarrow> char \<Rightarrow> bool" where
  "in_range lo hi c = (lo \<le> c \<and> c \<le> hi)"

fun two_chars :: "(char \<Rightarrow> bool) \<Rightarrow> (char \<Rightarrow> bool) \<Rightarrow> string \<Rightarrow> bool" where
  "two_chars p q (a # b # rest) = (p a \<and> q b)"
| "two_chars p q _ = False"

definition match_month :: "string \<Rightarrow> (int \<times> string) option" where
  "match_month s =
     (if two_chars (\<lambda>c. c = CHR ''1'') (in_range CHR ''0'' CHR ''2'') s
        then Some (10 + digit_val (s ! 1), drop 2 s)
      else if two_chars (\<lambda>c. c = CHR ''0'') (in_range CHR ''1'' CHR ''9'') s
        then Some (digit_val (s ! 1), drop 2 s)
      else (case s of
              c # rest \<Rightarrow> if in_range CHR ''1'' CHR ''9'' c then Some (digit_val c, rest) else None
            | [] \<Rightarrow> None))"

definition match_day :: "string \<Rightarrow> (int \<times> string) option" where
  "match_day s =
     (if two_chars (\<lambda>c. c = CHR ''3'') (in_range CHR ''0'' CHR ''1'') s
        then Some (30 + digit_val (s ! 1), drop 2 s)
      else if two_chars (in_range CHR ''1'' CHR ''2'') is_digit s
        then Some (10 * digit_val (s ! 0) + digit_val (s ! 1), drop 2 s)
      else if two_chars (\<lambda>c. c = CHR ''0'') (in_range CHR ''1'' CHR ''9'') s
        then Some (digit_val (s ! 1), drop 2 s)
      else (case s of
              c # rest \<Rightarrow>
                if in_range CHR ''1'' CHR ''9'' c then Some (digit_val c, rest)
                else if two_chars (\<lambda>c. c = CHR '' '') (in_range CHR ''1'' CHR ''9'') s
                  then Some (digit_val (s ! 1), drop 2 s)
                else None
            | [] \<Rightarrow> None))"

definition expect_dash :: "string \<Rightarrow> string option" where
  "expect_dash s = (case s of c # rest \<Rightarrow> if c = CHR ''-'' then Some rest else None | [] \<Rightarrow> None)"

definition match_ymd :: "string \<Rightarrow> (int \<times> int \<times> int) option" where
  "match_ymd s =
     Option.bind (match_year s) (\<lambda>(y, s1).
     Option.bind (expect_dash s1) (\<lambda>s2.
     Option.bind (match_month s2) (\<lambda>(m, s3).
     Option.bind (expect_dash s3) (\<lambda>s4.
     Option.bind (match_day s4) (\<lambda>(d, s5).
     if s5 = [] then Some (y, m, d) else None)))))"

definition valid_date :: "int \<Rightarrow> int \<Rightarrow> int \<Rightarrow> bool" where
  "valid_date y m d = (1 \<le> y \<and> y \<le> 9999 \<and> 1 \<le> m \<and> m \<le> 12 \<and> 1 \<le> d \<and> d \<le> days_in_month y m)"

fun strptime :: "json \<Rightarrow> py_error + datetime" where
  "strptime (JStr s) =
     (case match_ymd s of
        None \<Rightarrow> Inl ValueError
      | Some (y, m, d) \<Rightarrow>
          if valid_date y m d
          then Inr \<lparr>dt_date = \<lparr>year = y, month = m, day = d\<rparr>,
                    hour = 0, minute = 0, second = 0, microsecond = 0\<rparr>
          else Inl ValueError)"
| "strptime _ = Inl TypeError"

section \<open>Reservations\<close>

text \<open>
  The dataclass \<^verbatim>\<open>Reservation\<close>: twelve fields given to the constructor, and the two
  dates that \<^verbatim>\<open>__post_init__\<close> parses from \<^verbatim>\<open>checkin\<close> and \<^verbatim>\<open>checkout\<close>. The
  constructor stores its arguments unchecked, so the fields that the parser fills from
  the raw record hold whatever value the record has.
\<close>

record reservation =
  booking_id :: string
  guest_name :: string
  room_name :: string
  room_id :: string
  unit_id :: string
  checkin :: json
  checkout :: json
  status :: json
  adults :: json
  children :: json
  nights :: int
  notes_text :: json
  checkin_date :: date
  checkout_date :: date

definition Reservation ::
  "string \<Rightarrow> string \<Rightarrow> string \<Rightarrow> string \<Rightarrow> string \<Rightarrow> json \<Rightarrow> json \<Rightarrow> json \<Rightarrow> json \<Rightarrow> json
     \<Rightarrow> int \<Rightarrow> json \<Rightarrow> py_error + reservation" where
  "Reservation bid gname rname rid uid cin cout st ad ch n nt =
     (case strptime cin of Inl e \<Rightarrow> Inl e | Inr din \<Rightarrow>
     (case strptime cout of Inl e \<Rightarrow> Inl e | Inr dout \<Rightarrow>
        Inr \<lparr>booking_id = bid, guest_name = gname, room_name = rname, room_id = rid,
             unit_id = uid, checkin = cin, checkout = cout, status = st, adults = ad,
             children = ch, nights = n, notes_text = nt,
             checkin_date = dt_date din, checkout_date = dt_date dout\<rparr>))"

section \<open>Categorizer\<close>

text \<open>
  \<^verbatim>\<open>categorize_reservations\<close>: one pass over the reservations appending to three
  lists, a reservation with status "black" being skipped by \<^verbatim>\<open>continue\<close>; then each
  list is sorted by \<^verbatim>\<open>sorted(..., key=lambda r: r.room_name)\<close>.
\<close>

fun categorize_loop ::
  "reservation list \<Rightarrow> date \<Rightarrow> reservation list \<times> reservation list \<times> reservation list
     \<Rightarrow> reservation list \<times> reservation list \<times> reservation list" where
  "categorize_loop [] target_date acc = acc"
| "categorize_loop (r # rs) target_date (arrivals, departures, stay_through) =
     (if py_eq (status r) (JStr ''black'') then
        categorize_loop rs target_date (arrivals, departures, stay_through)
      else
        categorize_loop rs target_date
          (if checkin_date r = target_date then arrivals @ [r] else arrivals,
           if checkout_date r = target_date then departures @ [r] else departures,
           if date_less (checkin_date r) target_date \<and> date_less target_date (checkout_date r)
             then stay_through @ [r] else stay_through))"

definition categorize_reservations ::
  "reservation list \<Rightarrow> date \<Rightarrow> reservation list \<times> reservation list \<times> reservation list" where
  "categorize_reservations reservations target_date =
     (case categorize_loop reservations target_date ([], [], []) of
        (arrivals, departures, stay_through) \<Rightarrow>
          (sort_key room_name arrivals, sort_key room_name departures,
           sort_key room_name stay_through))"

subsection \<open>The categorizer on a store of objects\<close>

text \<open>
  Python passes the list of reservations and the reservations themselves by reference,
  and both are mutable. To state what a call of \<^verbatim>\<open>categorize_reservations\<close> reads and
  writes, the function is modelled a second time on an explicit store: a sequence of
  objects, an object's reference being its position. An object is a reservation or a
  list of references. A reference outside the store, which Python cannot produce, is
  reported as an error, as is a list where a reservation is expected (its attributes
  are missing) and a reservation where a list is expected (it cannot be iterated).
\<close>

type_synonym addr = nat

datatype obj = ReservationObj reservation | ListObj "addr list"

type_synonym store = "obj list"

datatype store_error = InvalidReference | NotIterable | NoAttribute

definition list_at :: "store \<Rightarrow> addr \<Rightarrow> store_error + addr list" where
  "list_at s a =
     (if a < length s then (case s ! a of ListObj xs \<Rightarrow> Inr xs | ReservationObj r \<Rightarrow> Inl NotIterable)
      else Inl InvalidReference)"

definition reservation_at :: "store \<Rightarrow> addr \<Rightarrow> store_error + reservation" where
  "reservation_at s a =
     (if a < length s then (case s ! a of ReservationObj r \<Rightarrow> Inr r | ListObj xs \<Rightarrow> Inl NoAttribute)
      else Inl InvalidReference)"

text \<open>
  \<^verbatim>\<open>[]\<close> and \<^verbatim>\<open>sorted(...)\<close> create a new list object; \<^verbatim>\<open>l.append(x)\<close> changes the list
  object \<^verbatim>\<open>l\<close> in place.
\<close>

definition new_list :: "store \<Rightarrow> addr list \<Rightarrow> addr \<times> store" where
  "new_list s xs = (length s, s @ [ListObj xs])"

definition list_append :: "store \<Rightarrow> addr \<Rightarrow> addr \<Rightarrow> store_error + store" where
  "list_append s l x =
     (case list_at s l of Inl e \<Rightarrow> Inl e | Inr xs \<Rightarrow> Inr (s[l := ListObj (xs @ [x])]))"

text \<open>
  One conditional append of the loop body: the condition reads the attributes of the
  reservation object as the store holds it at that moment.
\<close>

definition append_when ::
  "(reservation \<Rightarrow> bool) \<Rightarrow> store \<Rightarrow> addr \<Rightarrow> addr \<Rightarrow> store_error + store" where
  "append_when cond s l x =
     (case reservation_at s x of
        Inl e \<Rightarrow> Inl e
      | Inr r \<Rightarrow> if cond r then list_append s l x else Inr s)"

definition categorize_body ::
  "store \<Rightarrow> addr \<Rightarrow> date \<Rightarrow> addr \<times> addr \<times> addr \<Rightarrow> store_error + store" where
  "categorize_body s reservation target_date acc =
     (case acc of (arrivals, departures, stay_through) \<Rightarrow>
      (case reservation_at s reservation of
         Inl e \<Rightarrow> Inl e
       | Inr r \<Rightarrow>
           if py_eq (status r) (JStr ''black'') then Inr s
           else
             (case append_when (\<lambda>r. checkin_date r = target_date) s arrivals reservation of
                Inl e \<Rightarrow> Inl e
              | Inr s1 \<Rightarrow>
                  (case append_when (\<lambda>r. checkout_date r = target_date) s1 departures reservation of
                     Inl e \<Rightarrow> Inl e
                   | Inr s2 \<Rightarrow>
                       append_when
                         (\<lambda>r. date_less (checkin_date r) target_date \<and>
                              date_less target_date (checkout_date r))
                         s2 stay_through reservation))))"

text \<open>
  The \<^verbatim>\<open>for\<close> loop: the list iterator holds an index and reads the list object, as the
  store holds it at that moment, on every step, stopping when the index reaches its
  length. The loop need not end if the body lengthens the list it runs over, so it is
  a partial function; that it ends on every store is part of what is proved below.
\<close>

partial_function (option) categorize_for ::
  "store \<Rightarrow> addr \<Rightarrow> nat \<Rightarrow> date \<Rightarrow> addr \<times> addr \<times> addr \<Rightarrow> (store_error + store) option" where
  "categorize_for s reservations i target_date acc =
     (case list_at s reservations of
        Inl e \<Rightarrow> Some (Inl e)
      | Inr xs \<Rightarrow>
          if i < length xs then
            (case categorize_body s (xs ! i) target_date acc of
               Inl e \<Rightarrow> Some (Inl e)
             | Inr s' \<Rightarrow> categorize_for s' reservations (Suc i) target_date acc)
          else Some (Inr s))"


text \<open>
  \<^verbatim>\<open>sorted(l, key=lambda r: r.room_name)\<close>: the key of every element is read once, the
  elements are sorted by their keys with a stable sort, and the result is a new list.
\<close>

fun room_names_at :: "store \<Rightarrow> addr list \<Rightarrow> store_error + string list" where
  "room_names_at s [] = Inr []"
| "room_names_at s (x # xs) =
     (case reservation_at s x of
        Inl e \<Rightarrow> Inl e
      | Inr r \<Rightarrow> (case room_names_at s xs of Inl e \<Rightarrow> Inl e | Inr ks \<Rightarrow> Inr (room_name r # ks)))"

definition sorted_by_room_name :: "store \<Rightarrow> addr \<Rightarrow> store_error + addr \<times> store" where
  "sorted_by_room_name s l =
     (case list_at s l of
        Inl e \<Rightarrow> Inl e
      | Inr xs \<Rightarrow>
          (case room_names_at s xs of
             Inl e \<Rightarrow> Inl e
           | Inr ks \<Rightarrow> Inr (new_list s (map snd (sort_key fst (zip ks xs))))))"

definition categorize_reservations_store ::
  "store \<Rightarrow> addr \<Rightarrow> date \<Rightarrow> (store_error + (addr \<times> addr \<times> addr) \<times> store) option" where
  "categorize_reservations_store s reservations target_date =
     (case new_list s [] of (arrivals, s1) \<Rightarrow>
      case new_list s1 [] of (departures, s2) \<Rightarrow>
      case new_list s2 [] of (stay_through, s3) \<Rightarrow>
      (case categorize_for s3 reservations 0 target_date (arrivals, departures, stay_through) of
         None \<Rightarrow> None
       | Some (Inl e) \<Rightarrow> Some (Inl e)
       | Some (Inr s4) \<Rightarrow>
           (case sorted_by_room_name s4 arrivals of
              Inl e \<Rightarrow> Some (Inl e)
            | Inr (sorted_arrivals, s5) \<Rightarrow>
                (case sorted_by_room_name s5 departures of
                   Inl e \<Rightarrow> Some (Inl e)
                 | Inr (sorted_departures, s6) \<Rightarrow>
                     (case sorted_by_room_name s6 stay_through of
                        Inl e \<Rightarrow> Some (Inl e)
                      | Inr (sorted_stay_through, s7) \<Rightarrow>
                          Some (Inr ((sorted_arrivals, sorted_departures, sorted_stay_through), s7)))))))"

text \<open>
  What a caller sees of the result: the references in the three returned lists, and the
  reservations they refer to.
\<close>

fun deref_all :: "store \<Rightarrow> addr list \<Rightarrow> store_error + reservation list" where
  "deref_all s [] = Inr []"
| "deref_all s (x # xs) =
     (case reservation_at s x of
        Inl e \<Rightarrow> Inl e
      | Inr r \<Rightarrow> (case deref_all s xs of Inl e \<Rightarrow> Inl e | Inr rs \<Rightarrow> Inr (r # rs)))"

definition result_lists ::
  "store \<Rightarrow> addr \<times> addr \<times> addr \<Rightarrow>
     (store_error + addr list) \<times> (store_error + addr list) \<times> (store_error + addr list)" where
  "result_lists s out =
     (case out of (a, d, t) \<Rightarrow> (list_at s a, list_at s d, list_at s t))"

definition deref_list :: "store \<Rightarrow> addr \<Rightarrow> store_error + reservation list" where
  "deref_list s l = (case list_at s l of Inl e \<Rightarrow> Inl e | Inr xs \<Rightarrow> deref_all s xs)"

definition result_reservations ::
  "store \<Rightarrow> addr \<times> addr \<times> addr \<Rightarrow>
     store_error + reservation list \<times> reservation list \<times> reservation list" where
  "result_reservations s out =
     (case out of (a, d, t) \<Rightarrow>
        (case deref_list s a of Inl e \<Rightarrow> Inl e | Inr ra \<Rightarrow>
        (case deref_list s d of Inl e \<Rightarrow> Inl e | Inr rd \<Rightarrow>
        (case deref_list s t of Inl e \<Rightarrow> Inl e | Inr rt \<Rightarrow> Inr (ra, rd, rt)))))"

section \<open>ReservationModel\<close>

text \<open>The room lookup dictionary of \<^verbatim>\<open>parse_booking_data\<close>, in the order it is written.\<close>

definition room_lookup :: "((int \<times> int) \<times> string) list" where
  "room_lookup =
     [((564321, 1), ''101''), ((564321, 2), ''201''), ((564321, 3), ''301''),
      ((564321, 4), ''302''), ((564327, 1), ''102''), ((564327, 2), ''202''),
      ((564325, 1), ''103''), ((564325, 2), ''203''), ((564328, 1), ''104''),
      ((564328, 2), ''204''), ((564326, 1), ''105''), ((564326, 2), ''106''),
      ((564326, 3), ''205''), ((564326, 4), ''206''), ((564322, 1), ''404''),
      ((564322, 2), ''504''), ((564322, 3), ''604''), ((564323, 1), ''401''),
      ((564323, 2), ''402''), ((564323, 3), ''403''), ((564323, 4), ''501''),
      ((564323, 5), ''502''), ((564323, 6), ''503''), ((564323, 7), ''601''),
      ((564323, 8), ''602''), ((564323, 9), ''603''), ((564324, 1), ''405''),
      ((564324, 2), ''505''), ((564324, 3), ''605''), ((570543, 1), ''701''),
      ((570545, 1), ''702''), ((570542, 1), ''703''), ((570544, 1), ''704''),
      ((570546, 1), ''705'')]"

text \<open>
  \<^verbatim>\<open>room_lookup.get(key, default)\<close> on a tuple key: a table key matches when both
  components are equal to the key's in Python's sense.
\<close>

definition room_lookup_get :: "json \<times> json \<Rightarrow> string \<Rightarrow> string" where
  "room_lookup_get key dflt =
     (case find (\<lambda>entry. py_eq (fst key) (JInt (fst (fst entry))) \<and>
                          py_eq (snd key) (JInt (snd (fst entry)))) room_lookup of
        Some entry \<Rightarrow> snd entry
      | None \<Rightarrow> dflt)"

text \<open>
  The \<^verbatim>\<open>try\<close> block converts both identifiers; an exception from either conversion
  enters the \<^verbatim>\<open>except\<close> block, which assigns both variables the raw values.
\<close>

definition room_unit_ids :: "pydict \<Rightarrow> json \<times> json" where
  "room_unit_ids booking =
     (case py_int (dict_get_default booking ''roomId'' (JInt 0)) of
        Inl e \<Rightarrow>
          (dict_get_default booking ''roomId'' (JInt 0), dict_get_default booking ''unitId'' (JInt 0))
      | Inr room \<Rightarrow>
          (case py_int (dict_get_default booking ''unitId'' (JInt 0)) of
             Inl e \<Rightarrow>
               (dict_get_default booking ''roomId'' (JInt 0),
                dict_get_default booking ''unitId'' (JInt 0))
           | Inr unit \<Rightarrow> (JInt room, JInt unit)))"

definition resolve_room_name :: "pydict \<Rightarrow> string" where
  "resolve_room_name booking =
     (let (room, unit) = room_unit_ids booking;
          lookup_key = (room, unit)
      in room_lookup_get lookup_key (''Room '' @ py_str room @ ''-'' @ py_str unit))"

text \<open>
  The arguments of the constructor call are evaluated in the order written: the night
  count parses the departure first, then the arrival, and an exception from either
  leaves the function at once.
\<close>

definition parse_booking_data :: "pydict \<Rightarrow> py_error + reservation" where
  "parse_booking_data booking =
     (let (room, unit) = room_unit_ids booking;
          label = resolve_room_name booking
      in case strptime (dict_get_default booking ''departure'' (JStr [])) of
           Inl e \<Rightarrow> Inl e
         | Inr departure \<Rightarrow>
             (case strptime (dict_get_default booking ''arrival'' (JStr [])) of
                Inl e \<Rightarrow> Inl e
              | Inr arrival \<Rightarrow>
                  Reservation
                    (py_str (dict_get_default booking ''id'' (JStr [])))
                    (strip (py_str (dict_get_default booking ''lastName'' (JStr [])) @ '' '' @
                            py_str (dict_get_default booking ''firstName'' (JStr []))))
                    label
                    (py_str room)
                    (py_str unit)
                    (dict_get_default booking ''arrival'' (JStr []))
                    (dict_get_default booking ''departure'' (JStr []))
                    (dict_get_default booking ''status'' (JStr []))
                    (dict_get_default booking ''numAdult'' (JInt 0))
                    (dict_get_default booking ''numChild'' (JInt 0))
                    (datetime_sub_days departure arrival)
                    (dict_get_default booking ''notes'' (JStr []))))"

section \<open>BookingFetcher\<close>

text \<open>
  The three calls of \<^verbatim>\<open>client.get_bookings\<close> are requests to the booking service; the
  model takes the service as a function from the query to the pair (records, message)
  that \<^verbatim>\<open>get_bookings\<close> returns. A date sent in a query is given by its day number; the
  date 30 days before or after the target must exist, or the date arithmetic raises
  OverflowError.
\<close>

record bookings_query =
  date_filter :: "string option"
  arrival_from :: "int option"
  arrival_to :: "int option"
  departure_from :: "int option"
  departure_to :: "int option"

definition date_plus_days :: "date \<Rightarrow> int \<Rightarrow> py_error + int" where
  "date_plus_days d n =
     (if 1 \<le> toordinal d + n \<and> toordinal d + n \<le> 3652059 then Inr (toordinal d + n)
      else Inl OverflowError)"

text \<open>
  The loop that combines the results: \<^verbatim>\<open>booking_ids\<close> is the set of identifiers seen,
  \<^verbatim>\<open>combined\<close> the list built.
\<close>

fun deduplicate :: "pydict list \<Rightarrow> json list \<Rightarrow> pydict list \<Rightarrow> pydict list" where
  "deduplicate [] booking_ids combined = combined"
| "deduplicate (booking # rest) booking_ids combined =
     (let booking_id = dict_get booking ''id''
      in if \<not> list_ex (\<lambda>seen. py_eq seen booking_id) booking_ids
         then deduplicate rest (booking_id # booking_ids) (combined @ [booking])
         else deduplicate rest booking_ids combined)"

text \<open>The arguments of the three calls of \<^verbatim>\<open>get_bookings\<close>.\<close>

definition arrivals_query :: "date \<Rightarrow> bookings_query" where
  "arrivals_query target_date =
     \<lparr>date_filter = Some ''arrivals'', arrival_from = Some (toordinal target_date),
      arrival_to = Some (toordinal target_date), departure_from = None, departure_to = None\<rparr>"

definition departures_query :: "date \<Rightarrow> bookings_query" where
  "departures_query target_date =
     \<lparr>date_filter = Some ''departures'', arrival_from = None, arrival_to = None,
      departure_from = Some (toordinal target_date), departure_to = Some (toordinal target_date)\<rparr>"

definition stay_through_query :: "int \<Rightarrow> date \<Rightarrow> int \<Rightarrow> bookings_query" where
  "stay_through_query start_date target_date end_date =
     \<lparr>date_filter = None, arrival_from = Some start_date,
      arrival_to = Some (toordinal target_date),
      departure_from = Some (toordinal target_date), departure_to = Some end_date\<rparr>"

definition fetch_all_relevant_bookings ::
  "(bookings_query \<Rightarrow> pydict list \<times> string) \<Rightarrow> date \<Rightarrow> py_error + pydict list" where
  "fetch_all_relevant_bookings get_bookings target_date =
     (case date_plus_days target_date (- 30) of Inl e \<Rightarrow> Inl e | Inr start_date \<Rightarrow>
     (case date_plus_days target_date 30 of Inl e \<Rightarrow> Inl e | Inr end_date \<Rightarrow>
        (let arrivals = fst (get_bookings (arrivals_query target_date));
             departures = fst (get_bookings (departures_query target_date));
             stay_through = fst (get_bookings (stay_through_query start_date target_date end_date))
         in Inr (deduplicate (arrivals @ departures @ stay_through) [] []))))"

text \<open>
  The specification's wording of the result: the concatenation with duplicates removed
  by booking identifier, each identifier's first occurrence kept, in first-seen order.
\<close>

fun first_occurrences :: "pydict list \<Rightarrow> pydict list" where
  "first_occurrences [] = []"
| "first_occurrences (b # bs) =
     b # first_occurrences (filter (\<lambda>c. \<not> py_eq (dict_get b ''id'') (dict_get c ''id'')) bs)"

section \<open>TokenStore and AuthSession\<close>

text \<open>
  What the authentication code reads from outside the program: the clock (one instant
  for the duration of a call, in microseconds), the parser and printer of ISO timestamps
  of the \<^verbatim>\<open>datetime\<close> library, the process environment, and the two token endpoints of
  the booking service, each answering a header value with the decoded JSON body or with
  the exception that the request raised.
\<close>

record environment =
  now :: int
  fromisoformat :: "string \<Rightarrow> int option"
  isoformat :: "int \<Rightarrow> string"
  getenv :: "string \<Rightarrow> string option"
  get_authentication_token :: "json \<Rightarrow> py_error + pydict"
  get_authentication_setup :: "json \<Rightarrow> py_error + pydict"

definition datetime_fromisoformat :: "environment \<Rightarrow> json \<Rightarrow> py_error + int" where
  "datetime_fromisoformat env v =
     (case v of
        JStr s \<Rightarrow> (case fromisoformat env s of Some t \<Rightarrow> Inr t | None \<Rightarrow> Inl ValueError)
      | _ \<Rightarrow> Inl TypeError)"

definition os_getenv :: "environment \<Rightarrow> string \<Rightarrow> json" where
  "os_getenv env name = (case getenv env name of Some s \<Rightarrow> JStr s | None \<Rightarrow> JNull)"

text \<open>\<^verbatim>\<open>timedelta(seconds=x)\<close>, in microseconds; \<^verbatim>\<open>x\<close> must be a number.\<close>

fun timedelta_seconds :: "json \<Rightarrow> py_error + int" where
  "timedelta_seconds (JInt n) = Inr (n * 1000000)"
| "timedelta_seconds (JBool b) = Inr (if b then 1000000 else 0)"
| "timedelta_seconds _ = Inl TypeError"

text \<open>\<^verbatim>\<open>TokenStorage.get_tokens\<close> on the dict \<^verbatim>\<open>self.tokens\<close>.\<close>

definition get_tokens :: "environment \<Rightarrow> pydict \<Rightarrow> py_error + pydict option" where
  "get_tokens env tokens =
     (if tokens = [] then Inr None
      else if truthy (dict_get tokens ''expires_at'') then
        (case datetime_fromisoformat env (dict_get tokens ''expires_at'') of
           Inl e \<Rightarrow> Inl e
         | Inr expires_at \<Rightarrow>
             if now env \<ge> expires_at then
               (if truthy (dict_get tokens ''refresh_token'') then Inr (Some tokens) else Inr None)
             else Inr (Some tokens))
      else Inr (Some tokens))"

text \<open>\<^verbatim>\<open>TokenStorage.store_tokens\<close>: the new value of \<^verbatim>\<open>self.tokens\<close>.\<close>

definition store_tokens :: "environment \<Rightarrow> json \<Rightarrow> json \<Rightarrow> string \<Rightarrow> int option \<Rightarrow> pydict" where
  "store_tokens env access refresh token_type expires_at =
     [(''access_token'', access),
      (''refresh_token'', refresh),
      (''token_type'', JStr token_type),
      (''expires_at'', (case expires_at of Some t \<Rightarrow> JStr (isoformat env t) | None \<Rightarrow> JNull)),
      (''last_updated'', JStr (isoformat env (now env)))]"

text \<open>
  The state of a \<^verbatim>\<open>Beds24APIClient\<close> that authentication reads and writes; \<open>tokens\<close> is
  \<^verbatim>\<open>self.token_storage.tokens\<close>. A method that can raise returns the state it leaves
  behind together with the exception.
\<close>

record client =
  access_token :: json
  refresh_token :: json
  tokens :: pydict

definition authenticate_with_refresh_token ::
  "environment \<Rightarrow> client \<Rightarrow> json \<Rightarrow> (py_error + pydict) \<times> client" where
  "authenticate_with_refresh_token env self refresh =
     (case get_authentication_token env refresh of
        Inl e \<Rightarrow> (Inl e, self)
      | Inr token_data \<Rightarrow>
          (let self1 = self\<lparr>access_token := dict_get token_data ''token'', refresh_token := refresh\<rparr>
           in case timedelta_seconds (dict_get_default token_data ''expiresIn'' (JInt 0)) of
                Inl e \<Rightarrow> (Inl e, self1)
              | Inr lifetime \<Rightarrow>
                  (Inr token_data,
                   self1\<lparr>tokens := store_tokens env (access_token self1) (refresh_token self1)
                                     ''refresh'' (Some (now env + lifetime))\<rparr>)))"

definition authenticate_with_invite_code ::
  "environment \<Rightarrow> client \<Rightarrow> json \<Rightarrow> (py_error + pydict) \<times> client" where
  "authenticate_with_invite_code env self invite_code =
     (case get_authentication_setup env invite_code of
        Inl e \<Rightarrow> (Inl e, self)
      | Inr token_data \<Rightarrow>
          (let self1 = self\<lparr>access_token := dict_get token_data ''token'',
                             refresh_token := dict_get token_data ''refreshToken''\<rparr>
           in case timedelta_seconds (dict_get_default token_data ''expiresIn'' (JInt 0)) of
                Inl e \<Rightarrow> (Inl e, self1)
              | Inr lifetime \<Rightarrow>
                  (Inr token_data,
                   self1\<lparr>tokens := store_tokens env (access_token self1) (refresh_token self1)
                                     ''refresh'' (Some (now env + lifetime))\<rparr>)))"

text \<open>
  The result of \<^verbatim>\<open>authenticate\<close> is a pair of a flag and a message; a message built
  by an f-string from a fixed text and \<^verbatim>\<open>str(e)\<close> keeps the exception.
\<close>

datatype message = Text string | TextWithError string py_error

text \<open>
  The second half of \<^verbatim>\<open>authenticate\<close>, from the comment "Try provided credentials or
  environment variables" on; it is reached from two places of the first half.
\<close>

definition provided_credentials ::
  "environment \<Rightarrow> client \<Rightarrow> json \<Rightarrow> json \<Rightarrow> json \<Rightarrow> (py_error + bool \<times> message) \<times> client" where
  "provided_credentials env self long_life_arg refresh_arg invite_arg =
     (let long_life = py_or long_life_arg (os_getenv env ''BEDS24_LONG_LIFE_TOKEN'');
          refresh = py_or refresh_arg (os_getenv env ''BEDS24_REFRESH_TOKEN'');
          invite_code = py_or invite_arg (os_getenv env ''BEDS24_INVITE_CODE'')
      in if truthy long_life then
           (Inr (True, Text ''Authenticated with long-life token''),
            self\<lparr>access_token := long_life,
                 tokens := store_tokens env long_life JNull ''long_life'' None\<rparr>)
         else if truthy refresh then
           (case authenticate_with_refresh_token env self refresh of
              (Inl e, self') \<Rightarrow> (Inl e, self')
            | (Inr token_data, self') \<Rightarrow> (Inr (True, Text ''Authenticated with refresh token''), self'))
         else if truthy invite_code then
           (case authenticate_with_invite_code env self invite_code of
              (Inl e, self') \<Rightarrow> (Inl e, self')
            | (Inr token_data, self') \<Rightarrow> (Inr (True, Text ''Authenticated with invite code''), self'))
         else (Inr (False, Text ''No authentication credentials provided''), self))"

text \<open>The body of the outer \<^verbatim>\<open>try\<close> of \<^verbatim>\<open>authenticate\<close>.\<close>

definition authenticate_try ::
  "environment \<Rightarrow> client \<Rightarrow> json \<Rightarrow> json \<Rightarrow> json \<Rightarrow> (py_error + bool \<times> message) \<times> client" where
  "authenticate_try env self long_life_arg refresh_arg invite_arg =
     (case get_tokens env (tokens self) of
        Inl e \<Rightarrow> (Inl e, self)
      | Inr None \<Rightarrow> provided_credentials env self long_life_arg refresh_arg invite_arg
      | Inr (Some stored_tokens) \<Rightarrow>
          (case dict_item stored_tokens ''access_token'' of
             Inl e \<Rightarrow> (Inl e, self)
           | Inr stored_access \<Rightarrow>
               (let self1 = self\<lparr>access_token := stored_access,
                                  refresh_token := dict_get stored_tokens ''refresh_token''\<rparr>
                in if truthy (dict_get stored_tokens ''expires_at'') then
                     (case datetime_fromisoformat env (dict_get stored_tokens ''expires_at'') of
                        Inl e \<Rightarrow> (Inl e, self1)
                      | Inr expires_at \<Rightarrow>
                          if now env \<ge> expires_at \<and> truthy (refresh_token self1) then
                            (case authenticate_with_refresh_token env self1 (refresh_token self1) of
                               (Inr token_data, self2) \<Rightarrow>
                                 (Inr (True, Text ''Successfully refreshed authentication''), self2)
                             | (Inl (RequestException m), self2) \<Rightarrow>
                                 (Inr (False, TextWithError ''Failed to refresh token: ''
                                                (RequestException m)), self2)
                             | (Inl e, self2) \<Rightarrow> (Inl e, self2))
                          else if truthy (access_token self1) then
                            (Inr (True, Text ''Using stored authentication''), self1)
                          else provided_credentials env self1 long_life_arg refresh_arg invite_arg)
                   else (Inr (True, Text ''Using stored authentication''), self1))))"

definition authenticate ::
  "environment \<Rightarrow> client \<Rightarrow> json \<Rightarrow> json \<Rightarrow> json \<Rightarrow> (bool \<times> message) \<times> client" where
  "authenticate env self long_life_arg refresh_arg invite_arg =
     (case authenticate_try env self long_life_arg refresh_arg invite_arg of
        (Inr result, self') \<Rightarrow> (result, self')
      | (Inl (RequestException m), self') \<Rightarrow>
          ((False, TextWithError ''Authentication failed: '' (RequestException m)), self')
      | (Inl e, self') \<Rightarrow>
          ((False, TextWithError ''Unexpected error during authentication: '' e), self'))"

section \<open>Reference definitions and sample data\<close>

text \<open>
  The specification's wording of the identifier policy: each identifier on its own is
  parsed as an integer when possible and kept raw otherwise. It is compared with
  \<open>room_unit_ids\<close> below.
\<close>

definition each_identifier_parsed :: "pydict \<Rightarrow> json \<times> json" where
  "each_identifier_parsed booking =
     (let raw_room = dict_get_default booking ''roomId'' (JInt 0);
          raw_unit = dict_get_default booking ''unitId'' (JInt 0)
      in ((case py_int raw_room of Inr i \<Rightarrow> JInt i | Inl e \<Rightarrow> raw_room),
          (case py_int raw_unit of Inr j \<Rightarrow> JInt j | Inl e \<Rightarrow> raw_unit)))"

text \<open>The three selections of the categorizer, as predicates on a reservation.\<close>

definition is_arrival :: "date \<Rightarrow> reservation \<Rightarrow> bool" where
  "is_arrival d r \<longleftrightarrow> status r \<noteq> JStr ''black'' \<and> checkin_date r = d"

definition is_departure :: "date \<Rightarrow> reservation \<Rightarrow> bool" where
  "is_departure d r \<longleftrightarrow> status r \<noteq> JStr ''black'' \<and> checkout_date r = d"

definition is_stay_through :: "date \<Rightarrow> reservation \<Rightarrow> bool" where
  "is_stay_through d r \<longleftrightarrow>
     status r \<noteq> JStr ''black'' \<and> date_less (checkin_date r) d \<and> date_less d (checkout_date r)"

text \<open>Concrete inputs on which the theorems below are instantiated.\<close>

definition ymd :: "int \<Rightarrow> int \<Rightarrow> int \<Rightarrow> date" where
  "ymd y m d = \<lparr>year = y, month = m, day = d\<rparr>"

definition sample_reservation :: "string \<Rightarrow> string \<Rightarrow> string \<Rightarrow> date \<Rightarrow> date \<Rightarrow> reservation" where
  "sample_reservation bid room st cin cout =
     \<lparr>booking_id = bid, guest_name = ''Guest'', room_name = room, room_id = ''564321'',
      unit_id = ''1'', checkin = JNull, checkout = JNull, status = JStr st,
      adults = JInt 2, children = JInt 0, nights = date_sub_days cout cin, notes_text = JStr [],
      checkin_date = cin, checkout_date = cout\<rparr>"

definition sample_reservations :: "reservation list" where
  "sample_reservations =
     [sample_reservation ''A1'' ''2'' ''confirmed'' (ymd 2024 5 17) (ymd 2024 5 19),
      sample_reservation ''Z0'' ''101'' ''new'' (ymd 2024 5 17) (ymd 2024 5 17),
      sample_reservation ''B1'' ''102'' ''black'' (ymd 2024 5 17) (ymd 2024 5 17),
      sample_reservation ''S1'' ''301'' ''confirmed'' (ymd 2024 5 16) (ymd 2024 5 18),
      sample_reservation ''A2'' ''2'' ''new'' (ymd 2024 5 17) (ymd 2024 5 20)]"

definition sample_booking :: pydict where
  "sample_booking =
     [(''id'', JStr ''A1''), (''arrival'', JStr ''2024-05-17''), (''departure'', JStr ''2024-05-19''),
      (''roomId'', JInt 564321), (''unitId'', JInt 1), (''status'', JStr ''confirmed'')]"

definition malformed_booking :: pydict where
  "malformed_booking =
     [(''id'', JStr ''A2''), (''arrival'', JStr ''2024-02-30''), (''departure'', JStr ''2024-03-02''),
      (''roomId'', JInt 564321), (''unitId'', JInt 1), (''status'', JStr ''confirmed'')]"

definition mixed_booking :: pydict where
  "mixed_booking =
     [(''id'', JStr ''A3''), (''arrival'', JStr ''2024-05-17''), (''departure'', JStr ''2024-05-19''),
      (''roomId'', JStr ''007''), (''unitId'', JStr ''x''), (''status'', JStr ''confirmed'')]"

definition unknown_room_booking :: pydict where
  "unknown_room_booking =
     [(''id'', JStr ''A4''), (''arrival'', JStr ''2024-05-17''), (''departure'', JStr ''2024-05-19''),
      (''roomId'', JInt 999999), (''unitId'', JStr ''1''), (''status'', JStr ''confirmed'')]"

definition half_parsed_booking :: pydict where
  "half_parsed_booking =
     [(''id'', JStr ''A5''), (''arrival'', JStr ''2024-05-17''), (''departure'', JStr ''2024-05-19''),
      (''roomId'', JInt 564321), (''unitId'', JNull), (''status'', JStr ''confirmed'')]"

definition sample_arrivals :: "pydict list" where
  "sample_arrivals =
     [[(''id'', JStr ''123''), (''arrival'', JStr ''2024-05-17''), (''firstName'', JStr ''Ada'')],
      [(''id'', JInt 7), (''arrival'', JStr ''2024-05-17'')]]"

definition sample_departures :: "pydict list" where
  "sample_departures =
     [[(''id'', JStr ''456''), (''departure'', JStr ''2024-05-17'')],
      [(''id'', JStr ''123''), (''arrival'', JStr ''2024-05-17''), (''firstName'', JStr ''Bea'')]]"

definition sample_stay_through :: "pydict list" where
  "sample_stay_through =
     [[(''id'', JStr ''123''), (''firstName'', JStr ''Cy'')],
      [(''id'', JStr ''789'')],
      [(''id'', JStr ''456''), (''departure'', JStr ''2024-05-18'')]]"

definition sample_get_bookings :: "bookings_query \<Rightarrow> pydict list \<times> string" where
  "sample_get_bookings q =
     (if date_filter q = Some ''arrivals'' then (sample_arrivals, ''Success'')
      else if date_filter q = Some ''departures'' then (sample_departures, ''Success'')
      else (sample_stay_through, ''Success''))"

text \<open>
  A sample environment: the clock stands at 2000; two timestamps are known to the
  parser, one before and one after that instant; the refresh endpoint accepts the
  refresh token "R1" and the setup endpoint the invite code "INVITE".
\<close>

definition sample_environment :: environment where
  "sample_environment =
     \<lparr>now = 2000,
      fromisoformat = (\<lambda>s. if s = ''2024-05-17T10:00:00'' then Some 1000
                          else if s = ''2024-05-19T10:00:00'' then Some 3000 else None),
      isoformat = (\<lambda>t. if t = 1000 then ''2024-05-17T10:00:00''
                      else if t = 3000 then ''2024-05-19T10:00:00'' else ''2024-05-18T10:00:00''),
      getenv = (\<lambda>name. None),
      get_authentication_token =
        (\<lambda>v. if v = JStr ''R1'' then Inr [(''token'', JStr ''T2''), (''expiresIn'', JInt 86400)]
             else Inl (RequestException ''401 Client Error'')),
      get_authentication_setup =
        (\<lambda>v. if v = JStr ''INVITE''
             then Inr [(''token'', JStr ''T3''), (''refreshToken'', JStr ''R3''),
                       (''expiresIn'', JInt 86400)]
             else Inl (RequestException ''401 Client Error''))\<rparr>"

definition sample_bundle :: "json \<Rightarrow> json \<Rightarrow> json \<Rightarrow> pydict" where
  "sample_bundle access refresh expires =
     [(''access_token'', access), (''refresh_token'', refresh), (''token_type'', JStr ''refresh''),
      (''expires_at'', expires), (''last_updated'', JStr ''2024-05-16T10:00:00'')]"

definition fresh_client :: "pydict \<Rightarrow> client" where
  "fresh_client stored = \<lparr>access_token = JNull, refresh_token = JNull, tokens = stored\<rparr>"

text \<open>A store holding the five sample reservations and, at reference 5, the list of them.\<close>

definition sample_store :: store where
  "sample_store = map ReservationObj sample_reservations @ [ListObj [0, 1, 2, 3, 4]]"

section \<open>Properties of the categorizer\<close>

lemma py_eq_JStr_iff: "py_eq v (JStr s) \<longleftrightarrow> v = JStr s"
  by (cases v) auto

lemma date_less_irrefl: "\<not> date_less a a"
  by (simp add: date_less_def)

lemma categorize_loop_eq:
  "categorize_loop rs d (a, dp, s) =
     (a @ filter (\<lambda>r. status r \<noteq> JStr ''black'' \<and> checkin_date r = d) rs,
      dp @ filter (\<lambda>r. status r \<noteq> JStr ''black'' \<and> checkout_date r = d) rs,
      s @ filter (\<lambda>r. status r \<noteq> JStr ''black'' \<and> date_less (checkin_date r) d
                       \<and> date_less d (checkout_date r)) rs)"
  by (induction rs arbitrary: a dp s) (simp_all add: py_eq_JStr_iff date_less_irrefl)

lemma categorize_reservations_eq:
  "categorize_reservations rs d =
     (sort_key room_name (filter (\<lambda>r. status r \<noteq> JStr ''black'' \<and> checkin_date r = d) rs),
      sort_key room_name (filter (\<lambda>r. status r \<noteq> JStr ''black'' \<and> checkout_date r = d) rs),
      sort_key room_name (filter (\<lambda>r. status r \<noteq> JStr ''black'' \<and> date_less (checkin_date r) d
                       \<and> date_less d (checkout_date r)) rs))"
  by (simp add: categorize_reservations_def categorize_loop_eq)

lemma sample_categorized:
  "categorize_reservations sample_reservations (ymd 2024 5 17) =
     ([sample_reservation ''Z0'' ''101'' ''new'' (ymd 2024 5 17) (ymd 2024 5 17),
       sample_reservation ''A1'' ''2'' ''confirmed'' (ymd 2024 5 17) (ymd 2024 5 19),
       sample_reservation ''A2'' ''2'' ''new'' (ymd 2024 5 17) (ymd 2024 5 20)],
      [sample_reservation ''Z0'' ''101'' ''new'' (ymd 2024 5 17) (ymd 2024 5 17)],
      [sample_reservation ''S1'' ''301'' ''confirmed'' (ymd 2024 5 16) (ymd 2024 5 18)])"
  by (simp add: categorize_reservations_def sample_reservations_def sample_reservation_def
        ymd_def date_less_def)

text \<open>
  C1. For every list of reservations and every target date, a reservation is among the
  arrivals exactly when it is in the input, its status is not "black" and its check-in
  date is the target date; among the departures exactly when its check-out date is the
  target date; among the stay-through exactly when the target date lies strictly between
  its check-in and check-out dates. Each list holds the selected reservations with their
  multiplicities. A reservation with status "black" is in none of the three lists, and a
  reservation that checks in and out on the target date is an arrival and a departure
  and never a stay-through.
\<close>

theorem categorize_membership:
  "categorize_reservations rs d = (arrivals, departures, stay_through) \<Longrightarrow>
   (\<forall>r. r \<in> set arrivals \<longleftrightarrow> r \<in> set rs \<and> status r \<noteq> JStr ''black'' \<and> checkin_date r = d) \<and>
   (\<forall>r. r \<in> set departures \<longleftrightarrow> r \<in> set rs \<and> status r \<noteq> JStr ''black'' \<and> checkout_date r = d) \<and>
   (\<forall>r. r \<in> set stay_through \<longleftrightarrow>
      r \<in> set rs \<and> status r \<noteq> JStr ''black'' \<and>
      date_less (checkin_date r) d \<and> date_less d (checkout_date r)) \<and>
   mset arrivals = mset (filter (\<lambda>r. status r \<noteq> JStr ''black'' \<and> checkin_date r = d) rs) \<and>
   mset departures = mset (filter (\<lambda>r. status r \<noteq> JStr ''black'' \<and> checkout_date r = d) rs) \<and>
   mset stay_through =
     mset (filter (\<lambda>r. status r \<noteq> JStr ''black'' \<and>
                      date_less (checkin_date r) d \<and> date_less d (checkout_date r)) rs) \<and>
   (\<forall>r. status r = JStr ''black'' \<longrightarrow>
      r \<notin> set arrivals \<and> r \<notin> set departures \<and> r \<notin> set stay_through) \<and>
   (\<forall>r \<in> set rs. status r \<noteq> JStr ''black'' \<and> checkin_date r = d \<and> checkout_date r = d \<longrightarrow>
      r \<in> set arrivals \<and> r \<in> set departures \<and> r \<notin> set stay_through)"
  by (auto simp: categorize_reservations_eq date_less_irrefl)

theorem categorize_membership_witness:
  "sample_reservation ''Z0'' ''101'' ''new'' (ymd 2024 5 17) (ymd 2024 5 17)
     \<in> set (fst (categorize_reservations sample_reservations (ymd 2024 5 17))) \<and>
   sample_reservation ''Z0'' ''101'' ''new'' (ymd 2024 5 17) (ymd 2024 5 17)
     \<in> set (fst (snd (categorize_reservations sample_reservations (ymd 2024 5 17)))) \<and>
   sample_reservation ''B1'' ''102'' ''black'' (ymd 2024 5 17) (ymd 2024 5 17)
     \<notin> set (fst (categorize_reservations sample_reservations (ymd 2024 5 17))) \<and>
   sample_reservation ''Z0'' ''101'' ''new'' (ymd 2024 5 17) (ymd 2024 5 17)
     \<notin> set (snd (snd (categorize_reservations sample_reservations (ymd 2024 5 17))))"
  using categorize_membership [OF sample_categorized] sample_categorized
  by (simp add: sample_reservation_def sample_reservations_def)

text \<open>
  C8. Each of the three lists is sorted in ascending order of the room label, the order
  being the lexicographic order of strings over the character codes: a label is below
  another when its first differing character is smaller, or when it is a proper prefix.
  So "101" comes before "2".
\<close>

theorem categorize_sorted:
  "categorize_reservations rs d = (arrivals, departures, stay_through) \<Longrightarrow>
   sorted (map room_name arrivals) \<and> sorted (map room_name departures) \<and>
   sorted (map room_name stay_through) \<and>
   (\<forall>a b u v. (a # u < b # v) = (a < b \<or> a = b \<and> u < v) \<and> ([] < b # v) \<and> \<not> (a # u < ([] :: string))) \<and>
   (\<forall>a b :: char. a < b \<longleftrightarrow> (of_char a :: nat) < of_char b) \<and>
   (''101'' :: string) < ''2''"
  by (auto simp: categorize_reservations_eq less_char_def)

theorem categorize_sorted_witness:
  "map room_name (fst (categorize_reservations sample_reservations (ymd 2024 5 17))) = [''101'', ''2'', ''2'']
   \<and> sorted [''101'', ''2'', ''2'' :: string]"
  using categorize_sorted [OF sample_categorized] sample_categorized
  by (simp add: sample_reservation_def)

text \<open>
  C10. Within each returned list, the reservations with one and the same room label stand
  in the order they have in the input list: the sort by room label is stable.
\<close>

theorem categorize_stable:
  "categorize_reservations rs d = (arrivals, departures, stay_through) \<Longrightarrow>
   (\<forall>k. filter (\<lambda>r. room_name r = k) arrivals =
        filter (\<lambda>r. room_name r = k)
          (filter (\<lambda>r. status r \<noteq> JStr ''black'' \<and> checkin_date r = d) rs)) \<and>
   (\<forall>k. filter (\<lambda>r. room_name r = k) departures =
        filter (\<lambda>r. room_name r = k)
          (filter (\<lambda>r. status r \<noteq> JStr ''black'' \<and> checkout_date r = d) rs)) \<and>
   (\<forall>k. filter (\<lambda>r. room_name r = k) stay_through =
        filter (\<lambda>r. room_name r = k)
          (filter (\<lambda>r. status r \<noteq> JStr ''black'' \<and>
                       date_less (checkin_date r) d \<and> date_less d (checkout_date r)) rs))"
  by (auto simp: categorize_reservations_eq sort_key_stable)

theorem categorize_stable_witness:
  "filter (\<lambda>r. room_name r = ''2'') (fst (categorize_reservations sample_reservations (ymd 2024 5 17))) =
     [sample_reservation ''A1'' ''2'' ''confirmed'' (ymd 2024 5 17) (ymd 2024 5 19),
      sample_reservation ''A2'' ''2'' ''new'' (ymd 2024 5 17) (ymd 2024 5 20)]"
  using categorize_stable [OF sample_categorized] sample_categorized
  by (simp add: sample_reservation_def sample_reservations_def ymd_def)

subsection \<open>The categorizer on a store\<close>

lemma map_insort_key_fun:
  "map f (insort_key (\<lambda>a. g (f a)) x ys) = insort_key g (f x) (map f ys)"
  by (induction ys) auto

lemma map_sort_key_fun: "map f (sort_key (\<lambda>a. g (f a)) xs) = sort_key g (map f xs)"
  by (induction xs) (auto simp: map_insort_key_fun)

lemma decorated_sort:
  "map snd (sort_key fst (zip (map k xs) xs)) = sort_key k xs"
proof -
  have "zip (map k xs) xs = map (\<lambda>x. (k x, x)) xs"
    by (induction xs) auto
  moreover have "sort_key fst (map (\<lambda>x. (k x, x)) xs) =
                 map (\<lambda>x. (k x, x)) (sort_key (\<lambda>a. fst (k a, a)) xs)"
    by (rule map_sort_key_fun [symmetric])
  ultimately show ?thesis
    by (simp add: comp_def)
qed

lemma deref_all_map:
  "(\<And>x. x \<in> set xs \<Longrightarrow> reservation_at s x = Inr (rf x)) \<Longrightarrow> deref_all s xs = Inr (map rf xs)"
  by (induction xs) auto

lemma deref_all_Inr:
  "deref_all s xs = Inr rs \<Longrightarrow>
   (\<forall>x \<in> set xs. reservation_at s x = Inr (projr (reservation_at s x))) \<and>
   rs = map (\<lambda>x. projr (reservation_at s x)) xs"
  by (induction xs arbitrary: rs) (auto split: sum.splits)

lemma room_names_at_map:
  "(\<And>x. x \<in> set xs \<Longrightarrow> reservation_at s x = Inr (rf x)) \<Longrightarrow>
   room_names_at s xs = Inr (map (\<lambda>x. room_name (rf x)) xs)"
  by (induction xs) auto

lemma reservation_at_append:
  "reservation_at s x = Inr r \<Longrightarrow> reservation_at (s @ t) x = Inr r"
  by (auto simp: reservation_at_def nth_append split: if_splits)

lemma list_at_append:
  "list_at s l = Inr xs \<Longrightarrow> list_at (s @ t) l = Inr xs"
  by (auto simp: list_at_def nth_append split: if_splits)

lemma list_at_new: "list_at (s @ [ListObj xs]) (length s) = Inr xs"
  by (simp add: list_at_def)

lemma sorted_by_room_name_eq:
  assumes "list_at s l = Inr xs"
    and "\<And>x. x \<in> set xs \<Longrightarrow> reservation_at s x = Inr (rf x)"
  shows "sorted_by_room_name s l =
           Inr (length s, s @ [ListObj (sort_key (\<lambda>x. room_name (rf x)) xs)])"
  using assms(1) room_names_at_map [of xs s rf, OF assms(2)]
  by (simp add: sorted_by_room_name_def new_list_def decorated_sort)

lemma reservation_at_nth:
  "reservation_at s x = Inr r \<Longrightarrow> x < length s \<and> s ! x = ReservationObj r"
  by (auto simp: reservation_at_def split: if_splits obj.splits)

lemma list_at_nth:
  "list_at s l = Inr xs \<Longrightarrow> l < length s \<and> s ! l = ListObj xs"
  by (auto simp: list_at_def split: if_splits obj.splits)

lemma list_at_update_other:
  "l \<noteq> a \<Longrightarrow> list_at (s[a := v]) l = list_at s l"
  by (simp add: list_at_def)

lemma list_at_update_same:
  "a < length s \<Longrightarrow> list_at (s[a := ListObj xs]) a = Inr xs"
  by (simp add: list_at_def)

lemma reservation_at_update_list:
  "reservation_at s x = Inr r \<Longrightarrow> s ! a = ListObj l \<Longrightarrow>
   reservation_at (s[a := ListObj l']) x = Inr r"
proof -
  assume r: "reservation_at s x = Inr r" and l: "s ! a = ListObj l"
  then have "x \<noteq> a" and "x < length s" and "s ! x = ReservationObj r"
    using reservation_at_nth [OF r] by auto
  then show ?thesis
    by (simp add: reservation_at_def)
qed

lemma list_append_eq:
  "a < length s \<Longrightarrow> s ! a = ListObj l \<Longrightarrow> list_append s a x = Inr (s[a := ListObj (l @ [x])])"
  by (simp add: list_append_def list_at_def)

lemma append_when_eq:
  assumes "reservation_at s x = Inr r" and "a < length s" and "s ! a = ListObj l"
  shows "append_when cond s a x = Inr (s[a := ListObj (l @ (if cond r then [x] else []))])"
proof -
  have "s[a := ListObj l] = s"
    using assms(3) list_update_id [of s a] by simp
  then show ?thesis
    using assms by (simp add: append_when_def list_append_eq)
qed

lemma categorize_body_eq:
  assumes r: "reservation_at s x = Inr r"
    and len: "a1 < length s" "a2 < length s" "a3 < length s"
    and ne: "a1 \<noteq> a2" "a1 \<noteq> a3" "a2 \<noteq> a3"
    and ls: "s ! a1 = ListObj l1" "s ! a2 = ListObj l2" "s ! a3 = ListObj l3"
  shows "categorize_body s x d (a1, a2, a3) =
     Inr (s[a1 := ListObj (l1 @ (if is_arrival d r then [x] else [])),
            a2 := ListObj (l2 @ (if is_departure d r then [x] else [])),
            a3 := ListObj (l3 @ (if is_stay_through d r then [x] else []))])"
proof (cases "status r = JStr ''black''")
  case True
  then have "is_arrival d r = False" "is_departure d r = False" "is_stay_through d r = False"
    by (simp_all add: is_arrival_def is_departure_def is_stay_through_def)
  moreover have "s[a1 := ListObj l1, a2 := ListObj l2, a3 := ListObj l3] = s"
    using len ls by (auto simp: list_eq_iff_nth_eq nth_list_update)
  ultimately show ?thesis
    using True r by (simp add: categorize_body_def py_eq_JStr_iff)
next
  case False
  let ?c1 = "\<lambda>r. checkin_date r = d"
  let ?c2 = "\<lambda>r. checkout_date r = d"
  let ?c3 = "\<lambda>r. date_less (checkin_date r) d \<and> date_less d (checkout_date r)"
  let ?s1 = "s[a1 := ListObj (l1 @ (if ?c1 r then [x] else []))]"
  let ?s2 = "?s1[a2 := ListObj (l2 @ (if ?c2 r then [x] else []))]"
  let ?s3 = "?s2[a3 := ListObj (l3 @ (if ?c3 r then [x] else []))]"
  have s1: "append_when ?c1 s a1 x = Inr ?s1"
    using append_when_eq [OF r len(1) ls(1)] .
  have r1: "reservation_at ?s1 x = Inr r"
    using r ls(1) by (rule reservation_at_update_list)
  have s2: "append_when ?c2 ?s1 a2 x = Inr ?s2"
    using ne ls len by (intro append_when_eq [OF r1]) simp_all
  have "?s1 ! a2 = ListObj l2"
    using ne ls len by simp
  with r1 have r2: "reservation_at ?s2 x = Inr r"
    by (rule reservation_at_update_list)
  have s3: "append_when ?c3 ?s2 a3 x = Inr ?s3"
    using ne ls len by (intro append_when_eq [OF r2]) simp_all
  have "categorize_body s x d (a1, a2, a3) = Inr ?s3"
    using False r s1 s2 s3 by (simp add: categorize_body_def py_eq_JStr_iff)
  then show ?thesis
    using False by (simp add: is_arrival_def is_departure_def is_stay_through_def)
qed

lemma categorize_for_eq:
  assumes "list_at s R = Inr xs"
    and "\<forall>x \<in> set xs. reservation_at s x = Inr (rf x)"
    and "a1 < length s" "a2 < length s" "a3 < length s"
    and "a1 \<noteq> a2" "a1 \<noteq> a3" "a2 \<noteq> a3"
    and "R \<noteq> a1" "R \<noteq> a2" "R \<noteq> a3"
    and "s ! a1 = ListObj l1" "s ! a2 = ListObj l2" "s ! a3 = ListObj l3"
  shows "categorize_for s R i d (a1, a2, a3) =
     Some (Inr (s[a1 := ListObj (l1 @ filter (\<lambda>x. is_arrival d (rf x)) (drop i xs)),
                  a2 := ListObj (l2 @ filter (\<lambda>x. is_departure d (rf x)) (drop i xs)),
                  a3 := ListObj (l3 @ filter (\<lambda>x. is_stay_through d (rf x)) (drop i xs))]))"
  using assms
proof (induction "length xs - i" arbitrary: s i l1 l2 l3)
  case 0
  then have "drop i xs = []" and "\<not> i < length xs"
    by simp_all
  moreover have "s[a1 := ListObj l1, a2 := ListObj l2, a3 := ListObj l3] = s"
    using 0 by (auto simp: list_eq_iff_nth_eq nth_list_update)
  ultimately show ?case
    using 0 by (subst categorize_for.simps) simp
next
  case (Suc n)
  then have i: "i < length xs"
    by simp
  let ?x = "xs ! i"
  have x: "?x \<in> set xs" using i by simp
  then have rx: "reservation_at s ?x = Inr (rf ?x)"
    using Suc.prems by blast
  let ?l1 = "l1 @ (if is_arrival d (rf ?x) then [?x] else [])"
  let ?l2 = "l2 @ (if is_departure d (rf ?x) then [?x] else [])"
  let ?l3 = "l3 @ (if is_stay_through d (rf ?x) then [?x] else [])"
  let ?s = "s[a1 := ListObj ?l1, a2 := ListObj ?l2, a3 := ListObj ?l3]"
  have body: "categorize_body s ?x d (a1, a2, a3) = Inr ?s"
    using categorize_body_eq [OF rx] Suc.prems by simp
  have n: "n = length xs - Suc i"
    using Suc.hyps by simp
  have listR: "list_at ?s R = Inr xs"
    using Suc.prems by (simp add: list_at_update_other)
  have res: "\<forall>y \<in> set xs. reservation_at ?s y = Inr (rf y)"
  proof
    fix y assume "y \<in> set xs"
    then have y: "reservation_at s y = Inr (rf y)"
      using Suc.prems by blast
    then have "y \<noteq> a1" "y \<noteq> a2" "y \<noteq> a3" "y < length s" "s ! y = ReservationObj (rf y)"
      using reservation_at_nth [OF y] Suc.prems by auto
    then show "reservation_at ?s y = Inr (rf y)"
      by (simp add: reservation_at_def)
  qed
  have nth: "?s ! a1 = ListObj ?l1" "?s ! a2 = ListObj ?l2" "?s ! a3 = ListObj ?l3"
    using Suc.prems by simp_all
  have len: "a1 < length ?s" "a2 < length ?s" "a3 < length ?s"
    using Suc.prems by simp_all
  have IH: "categorize_for ?s R (Suc i) d (a1, a2, a3) =
     Some (Inr (?s[a1 := ListObj (?l1 @ filter (\<lambda>x. is_arrival d (rf x)) (drop (Suc i) xs)),
                   a2 := ListObj (?l2 @ filter (\<lambda>x. is_departure d (rf x)) (drop (Suc i) xs)),
                   a3 := ListObj (?l3 @ filter (\<lambda>x. is_stay_through d (rf x)) (drop (Suc i) xs))]))"
    using Suc.hyps(1) [OF n listR res len Suc.prems(6-11) nth] .
  have drop: "drop i xs = ?x # drop (Suc i) xs"
    using i by (simp add: Cons_nth_drop_Suc)
  have final: "?s[a1 := ListObj (?l1 @ filter (\<lambda>x. is_arrival d (rf x)) (drop (Suc i) xs)),
                   a2 := ListObj (?l2 @ filter (\<lambda>x. is_departure d (rf x)) (drop (Suc i) xs)),
                   a3 := ListObj (?l3 @ filter (\<lambda>x. is_stay_through d (rf x)) (drop (Suc i) xs))] =
        s[a1 := ListObj (l1 @ filter (\<lambda>x. is_arrival d (rf x)) (drop i xs)),
          a2 := ListObj (l2 @ filter (\<lambda>x. is_departure d (rf x)) (drop i xs)),
          a3 := ListObj (l3 @ filter (\<lambda>x. is_stay_through d (rf x)) (drop i xs))]"
    using Suc.prems(3-8) by (auto simp: list_eq_iff_nth_eq nth_list_update drop)
  show ?case
    using Suc.prems(1) i body IH final
    by (subst categorize_for.simps) simp
qed

lemma categorize_reservations_store_eq:
  assumes R: "list_at s R = Inr xs"
    and rf: "\<forall>x \<in> set xs. reservation_at s x = Inr (rf x)"
  shows "categorize_reservations_store s R d =
     Some (Inr ((length s + 3, length s + 4, length s + 5),
       s @ [ListObj (filter (\<lambda>x. is_arrival d (rf x)) xs),
            ListObj (filter (\<lambda>x. is_departure d (rf x)) xs),
            ListObj (filter (\<lambda>x. is_stay_through d (rf x)) xs),
            ListObj (sort_key (\<lambda>x. room_name (rf x)) (filter (\<lambda>x. is_arrival d (rf x)) xs)),
            ListObj (sort_key (\<lambda>x. room_name (rf x)) (filter (\<lambda>x. is_departure d (rf x)) xs)),
            ListObj (sort_key (\<lambda>x. room_name (rf x)) (filter (\<lambda>x. is_stay_through d (rf x)) xs))]))"
proof -
  let ?n = "length s"
  let ?A = "filter (\<lambda>x. is_arrival d (rf x)) xs"
  let ?D = "filter (\<lambda>x. is_departure d (rf x)) xs"
  let ?T = "filter (\<lambda>x. is_stay_through d (rf x)) xs"
  let ?k = "\<lambda>x. room_name (rf x)"
  let ?s3 = "s @ [ListObj [], ListObj [], ListObj []]"
  let ?s4 = "s @ [ListObj ?A, ListObj ?D, ListObj ?T]"
  let ?s5 = "?s4 @ [ListObj (sort_key ?k ?A)]"
  let ?s6 = "?s5 @ [ListObj (sort_key ?k ?D)]"
  let ?s7 = "?s6 @ [ListObj (sort_key ?k ?T)]"
  have Rlt: "R < ?n"
    using list_at_nth [OF R] by simp
  have alloc: "new_list s [] = (?n, s @ [ListObj []])"
    "new_list (s @ [ListObj []]) [] = (?n + 1, s @ [ListObj [], ListObj []])"
    "new_list (s @ [ListObj [], ListObj []]) [] = (?n + 2, ?s3)"
    by (simp_all add: new_list_def)
  have R3: "list_at ?s3 R = Inr xs"
    using R by (rule list_at_append)
  have rf3: "\<forall>x \<in> set xs. reservation_at ?s3 x = Inr (rf x)"
    using rf reservation_at_append by blast
  have loop: "categorize_for ?s3 R 0 d (?n, ?n + 1, ?n + 2) =
      Some (Inr (?s3[?n := ListObj ([] @ filter (\<lambda>x. is_arrival d (rf x)) (drop 0 xs)),
                     ?n + 1 := ListObj ([] @ filter (\<lambda>x. is_departure d (rf x)) (drop 0 xs)),
                     ?n + 2 := ListObj ([] @ filter (\<lambda>x. is_stay_through d (rf x)) (drop 0 xs))]))"
    using Rlt by (intro categorize_for_eq [OF R3 rf3]) (simp_all add: nth_append)
  have s4: "?s3[?n := ListObj ([] @ filter (\<lambda>x. is_arrival d (rf x)) (drop 0 xs)),
                     ?n + 1 := ListObj ([] @ filter (\<lambda>x. is_departure d (rf x)) (drop 0 xs)),
                     ?n + 2 := ListObj ([] @ filter (\<lambda>x. is_stay_through d (rf x)) (drop 0 xs))] = ?s4"
    by (simp add: list_update_append)
  have loop4: "categorize_for ?s3 R 0 d (?n, ?n + 1, ?n + 2) = Some (Inr ?s4)"
    using loop s4 by simp
  have rf4: "\<And>x. x \<in> set xs \<Longrightarrow> reservation_at ?s4 x = Inr (rf x)"
    using rf reservation_at_append by blast
  have rf5: "\<And>x. x \<in> set xs \<Longrightarrow> reservation_at ?s5 x = Inr (rf x)"
    using rf4 reservation_at_append by blast
  have rf6: "\<And>x. x \<in> set xs \<Longrightarrow> reservation_at ?s6 x = Inr (rf x)"
    using rf5 reservation_at_append by blast
  have lA: "list_at ?s4 ?n = Inr ?A"
    by (simp add: list_at_def nth_append)
  have lD: "list_at ?s5 (?n + 1) = Inr ?D"
    by (simp add: list_at_def nth_append)
  have lT: "list_at ?s6 (?n + 2) = Inr ?T"
    by (simp add: list_at_def nth_append)
  have sortA: "sorted_by_room_name ?s4 ?n = Inr (?n + 3, ?s5)"
    using sorted_by_room_name_eq [OF lA, of rf] rf4 by simp
  have sortD: "sorted_by_room_name ?s5 (?n + 1) = Inr (?n + 4, ?s6)"
    using sorted_by_room_name_eq [OF lD, of rf] rf5 by simp
  have sortT: "sorted_by_room_name ?s6 (?n + 2) = Inr (?n + 5, ?s7)"
    using sorted_by_room_name_eq [OF lT, of rf] rf6 by simp
  have "categorize_reservations_store s R d =
          Some (Inr ((?n + 3, ?n + 4, ?n + 5), ?s7))"
    unfolding categorize_reservations_store_def alloc prod.case loop4 option.case sum.case
      sortA sortD sortT
    by (rule refl)
  then show ?thesis
    by simp
qed

lemma sample_run:
  "categorize_reservations_store sample_store 5 (ymd 2024 5 17) =
     Some (Inr ((9, 10, 11),
       sample_store @ [ListObj [0, 1, 4], ListObj [1], ListObj [3],
                       ListObj [1, 0, 4], ListObj [1], ListObj [3]]))"
  by (simp add: categorize_reservations_store_def new_list_def categorize_for.simps
        categorize_body_def append_when_def list_append_def list_at_def reservation_at_def
        sorted_by_room_name_def sample_store_def sample_reservations_def sample_reservation_def
        ymd_def date_less_def nth_append)

lemma categorize_reservations_selected:
  "categorize_reservations rs d =
     (sort_key room_name (filter (is_arrival d) rs),
      sort_key room_name (filter (is_departure d) rs),
      sort_key room_name (filter (is_stay_through d) rs))"
proof -
  have "is_arrival d = (\<lambda>r. status r \<noteq> JStr ''black'' \<and> checkin_date r = d)"
    and "is_departure d = (\<lambda>r. status r \<noteq> JStr ''black'' \<and> checkout_date r = d)"
    and "is_stay_through d = (\<lambda>r. status r \<noteq> JStr ''black'' \<and> date_less (checkin_date r) d
                       \<and> date_less d (checkout_date r))"
    by (auto simp: fun_eq_iff is_arrival_def is_departure_def is_stay_through_def)
  then show ?thesis
    by (simp only: categorize_reservations_eq)
qed

lemma map_sorted_selection:
  "map rf (sort_key (\<lambda>x. room_name (rf x)) (filter (\<lambda>x. P (rf x)) xs)) =
     sort_key room_name (filter P (map rf xs))"
  by (simp add: map_sort_key_fun filter_map comp_def)

lemma deref_sorted_selection:
  assumes "\<And>x. x \<in> set xs \<Longrightarrow> reservation_at t x = Inr (rf x)"
  shows "deref_all t (sort_key (\<lambda>x. room_name (rf x)) (filter (\<lambda>x. P (rf x)) xs)) =
           Inr (sort_key room_name (filter P (map rf xs)))"
proof -
  have "deref_all t (sort_key (\<lambda>x. room_name (rf x)) (filter (\<lambda>x. P (rf x)) xs)) =
          Inr (map rf (sort_key (\<lambda>x. room_name (rf x)) (filter (\<lambda>x. P (rf x)) xs)))"
    using assms by (intro deref_all_map) simp
  then show ?thesis
    by (simp only: map_sorted_selection)
qed

lemma run_results:
  assumes rf: "\<And>x. x \<in> set xs \<Longrightarrow> reservation_at t x = Inr (rf x)"
    and n: "n = length t"
  shows "result_lists
           (t @ [ListObj a0, ListObj d0, ListObj t0, ListObj a, ListObj b, ListObj c])
           (n + 3, n + 4, n + 5) = (Inr a, Inr b, Inr c)"
  by (simp add: result_lists_def list_at_def nth_append n)

lemma run_reservations:
  assumes rf: "\<And>x. x \<in> set xs \<Longrightarrow> reservation_at t x = Inr (rf x)"
    and n: "n = length t"
  shows "result_reservations
           (t @ [ListObj a0, ListObj d0, ListObj t0,
                 ListObj (sort_key (\<lambda>x. room_name (rf x)) (filter (\<lambda>x. is_arrival d (rf x)) xs)),
                 ListObj (sort_key (\<lambda>x. room_name (rf x)) (filter (\<lambda>x. is_departure d (rf x)) xs)),
                 ListObj (sort_key (\<lambda>x. room_name (rf x)) (filter (\<lambda>x. is_stay_through d (rf x)) xs))])
           (n + 3, n + 4, n + 5) = Inr (categorize_reservations (map rf xs) d)"
proof -
  let ?t = "t @ [ListObj a0, ListObj d0, ListObj t0,
                 ListObj (sort_key (\<lambda>x. room_name (rf x)) (filter (\<lambda>x. is_arrival d (rf x)) xs)),
                 ListObj (sort_key (\<lambda>x. room_name (rf x)) (filter (\<lambda>x. is_departure d (rf x)) xs)),
                 ListObj (sort_key (\<lambda>x. room_name (rf x)) (filter (\<lambda>x. is_stay_through d (rf x)) xs))]"
  have rf': "\<And>x. x \<in> set xs \<Longrightarrow> reservation_at ?t x = Inr (rf x)"
    using rf reservation_at_append by blast
  have "deref_list ?t (n + 3) = Inr (sort_key room_name (filter (is_arrival d) (map rf xs)))"
    and "deref_list ?t (n + 4) = Inr (sort_key room_name (filter (is_departure d) (map rf xs)))"
    and "deref_list ?t (n + 5) = Inr (sort_key room_name (filter (is_stay_through d) (map rf xs)))"
    using deref_sorted_selection [of xs ?t rf, OF rf']
    by (simp_all add: deref_list_def list_at_def nth_append n del: deref_all.simps)
  then show ?thesis
    by (simp add: result_reservations_def categorize_reservations_selected)
qed

text \<open>
  C9. Running the categorizer twice on the same list of reservations and the same target
  date gives identical results. On every store in which the argument is a list of
  reservations, the first call returns; it leaves every object that existed before it
  unchanged, the list and the reservations among them, so the second call is given the
  same input; the second call returns; the three lists it returns hold the same
  references in the same order as those of the first; and in both cases the reservations
  in the lists are those that \<open>categorize_reservations\<close> computes from the
  reservations in the argument and the date, whatever else the store holds.
\<close>

theorem categorize_twice_identical:
  assumes "list_at s reservations = Inr xs" and "deref_all s xs = Inr rs"
  shows "\<exists>out1 s1 out2 s2.
     categorize_reservations_store s reservations d = Some (Inr (out1, s1)) \<and>
     categorize_reservations_store s1 reservations d = Some (Inr (out2, s2)) \<and>
     take (length s) s1 = s \<and> take (length s1) s2 = s1 \<and>
     list_at s1 reservations = Inr xs \<and> deref_all s1 xs = Inr rs \<and>
     result_lists s1 out1 = result_lists s2 out2 \<and>
     result_reservations s1 out1 = Inr (categorize_reservations rs d) \<and>
     result_reservations s2 out2 = Inr (categorize_reservations rs d)"
proof -
  define rf where "rf = (\<lambda>x. projr (reservation_at s x))"
  have rf: "\<forall>x \<in> set xs. reservation_at s x = Inr (rf x)" and rs: "rs = map rf xs"
    using deref_all_Inr [OF assms(2)] by (simp_all add: rf_def)
  let ?A = "filter (\<lambda>x. is_arrival d (rf x)) xs"
  let ?D = "filter (\<lambda>x. is_departure d (rf x)) xs"
  let ?T = "filter (\<lambda>x. is_stay_through d (rf x)) xs"
  let ?k = "\<lambda>x. room_name (rf x)"
  let ?new = "[ListObj ?A, ListObj ?D, ListObj ?T,
               ListObj (sort_key ?k ?A), ListObj (sort_key ?k ?D), ListObj (sort_key ?k ?T)]"
  let ?s1 = "s @ ?new"
  let ?s2 = "?s1 @ ?new"
  let ?out1 = "(length s + 3, length s + 4, length s + 5)"
  let ?out2 = "(length ?s1 + 3, length ?s1 + 4, length ?s1 + 5)"
  have run1: "categorize_reservations_store s reservations d = Some (Inr (?out1, ?s1))"
    using categorize_reservations_store_eq [OF assms(1) rf] .
  have R1: "list_at ?s1 reservations = Inr xs"
    using assms(1) by (rule list_at_append)
  have rf1: "\<forall>x \<in> set xs. reservation_at ?s1 x = Inr (rf x)"
    using rf reservation_at_append by blast
  have run2: "categorize_reservations_store ?s1 reservations d = Some (Inr (?out2, ?s2))"
    using categorize_reservations_store_eq [OF R1 rf1] .
  have d1: "deref_all ?s1 xs = Inr rs"
    using rf1 rs deref_all_map [of xs ?s1 rf] by simp
  have l1: "result_lists ?s1 ?out1 =
              (Inr (sort_key ?k ?A), Inr (sort_key ?k ?D), Inr (sort_key ?k ?T))"
    using rf by (intro run_results [of xs s rf]) simp_all
  have l2: "result_lists ?s2 ?out2 =
              (Inr (sort_key ?k ?A), Inr (sort_key ?k ?D), Inr (sort_key ?k ?T))"
    using rf1 by (intro run_results [of xs ?s1 rf]) simp_all
  have v1: "result_reservations ?s1 ?out1 = Inr (categorize_reservations rs d)"
    unfolding rs using rf by (intro run_reservations [of xs s rf]) simp_all
  have v2: "result_reservations ?s2 ?out2 = Inr (categorize_reservations rs d)"
    unfolding rs using rf1 by (intro run_reservations [of xs ?s1 rf]) simp_all
  have "categorize_reservations_store s reservations d = Some (Inr (?out1, ?s1)) \<and>
     categorize_reservations_store ?s1 reservations d = Some (Inr (?out2, ?s2)) \<and>
     take (length s) ?s1 = s \<and> take (length ?s1) ?s2 = ?s1 \<and>
     list_at ?s1 reservations = Inr xs \<and> deref_all ?s1 xs = Inr rs \<and>
     result_lists ?s1 ?out1 = result_lists ?s2 ?out2 \<and>
     result_reservations ?s1 ?out1 = Inr (categorize_reservations rs d) \<and>
     result_reservations ?s2 ?out2 = Inr (categorize_reservations rs d)"
    using run1 run2 R1 d1 l1 l2 v1 v2 by simp
  then show ?thesis
    by blast
qed

lemma sample_store_input:
  "list_at sample_store 5 = Inr [0, 1, 2, 3, 4]"
  "deref_all sample_store [0, 1, 2, 3, 4] = Inr sample_reservations"
  by (simp_all add: sample_store_def sample_reservations_def list_at_def reservation_at_def)

theorem categorize_twice_identical_witness:
  "\<exists>out1 s1 out2 s2.
     categorize_reservations_store sample_store 5 (ymd 2024 5 17) = Some (Inr (out1, s1)) \<and>
     categorize_reservations_store s1 5 (ymd 2024 5 17) = Some (Inr (out2, s2)) \<and>
     take (length sample_store) s1 = sample_store \<and>
     result_lists s1 out1 = result_lists s2 out2 \<and>
     result_reservations s2 out2 =
       Inr ([sample_reservation ''Z0'' ''101'' ''new'' (ymd 2024 5 17) (ymd 2024 5 17),
             sample_reservation ''A1'' ''2'' ''confirmed'' (ymd 2024 5 17) (ymd 2024 5 19),
             sample_reservation ''A2'' ''2'' ''new'' (ymd 2024 5 17) (ymd 2024 5 20)],
            [sample_reservation ''Z0'' ''101'' ''new'' (ymd 2024 5 17) (ymd 2024 5 17)],
            [sample_reservation ''S1'' ''301'' ''confirmed'' (ymd 2024 5 16) (ymd 2024 5 18)])"
  using categorize_twice_identical [OF sample_store_input, of "ymd 2024 5 17"]
  unfolding sample_categorized by blast

section \<open>Properties of the reservation parser\<close>

lemmas eval_defs = dict_get_def dict_get_default_def match_ymd_def expect_dash_def match_month_def match_day_def is_digit_def
  digit_val_def in_range_def valid_date_def days_in_month_def is_leap_def
  int_of_string_def strip_def is_space_def strip_int_def is_int_space_def unsigned_value_def int_str_def nat_digits.simps digit_char_def
  toordinal_def days_before_year_def days_before_month_def datetime_sub_days_def date_sub_days_def

lemma strptime_midnight:
  "strptime v = Inr dt \<Longrightarrow> hour dt = 0 \<and> minute dt = 0 \<and> second dt = 0 \<and> microsecond dt = 0"
  by (cases v) (auto split: option.splits if_splits)

lemma datetime_sub_days_strptime:
  "strptime v = Inr a \<Longrightarrow> strptime w = Inr b \<Longrightarrow>
   datetime_sub_days a b = date_sub_days (dt_date a) (dt_date b)"
  by (auto simp: datetime_sub_days_def date_sub_days_def dest!: strptime_midnight)

lemma py_int_fails_not_eq: "py_int v = Inl e \<Longrightarrow> \<not> py_eq v (JInt i)"
  by (cases v) (auto split: option.splits)

lemma room_lookup_get_miss:
  "py_int a = Inl e \<or> py_int b = Inl e \<Longrightarrow> room_lookup_get (a, b) dflt = dflt"
proof -
  assume "py_int a = Inl e \<or> py_int b = Inl e"
  then have "\<And>i j. \<not> (py_eq a (JInt i) \<and> py_eq b (JInt j))"
    using py_int_fails_not_eq by blast
  then have "find (\<lambda>entry. py_eq (fst (a, b)) (JInt (fst (fst entry))) \<and>
                          py_eq (snd (a, b)) (JInt (snd (fst entry)))) room_lookup = None"
    by (simp only: find_None_iff fst_conv snd_conv) blast
  then show ?thesis
    unfolding room_lookup_get_def by simp
qed

lemma find_fst_map_of:
  "(case find (\<lambda>entry. fst entry = k) xs of Some entry \<Rightarrow> snd entry | None \<Rightarrow> d) =
   (case map_of xs k of Some v \<Rightarrow> v | None \<Rightarrow> d)"
  by (induction xs) auto

lemma room_lookup_get_ints:
  "room_lookup_get (JInt i, JInt j) dflt =
     (case map_of room_lookup (i, j) of Some label \<Rightarrow> label | None \<Rightarrow> dflt)"
proof -
  have "(\<lambda>entry. py_eq (fst (JInt i, JInt j)) (JInt (fst (fst entry))) \<and>
                 py_eq (snd (JInt i, JInt j)) (JInt (snd (fst entry)))) =
        (\<lambda>entry :: (int \<times> int) \<times> string. fst entry = (i, j))"
    by (auto simp: fun_eq_iff)
  then show ?thesis
    unfolding room_lookup_get_def by (simp only: find_fst_map_of)
qed

lemma room_lookup_distinct: "distinct (map fst room_lookup)"
  by (simp add: room_lookup_def)

lemma room_unit_ids_cases:
  "(\<exists>i j. py_int (dict_get_default b ''roomId'' (JInt 0)) = Inr i \<and>
          py_int (dict_get_default b ''unitId'' (JInt 0)) = Inr j \<and>
          room_unit_ids b = (JInt i, JInt j)) \<or>
   ((\<exists>e. py_int (dict_get_default b ''roomId'' (JInt 0)) = Inl e \<or>
         py_int (dict_get_default b ''unitId'' (JInt 0)) = Inl e) \<and>
    room_unit_ids b = (dict_get_default b ''roomId'' (JInt 0), dict_get_default b ''unitId'' (JInt 0)))"
  by (auto simp: room_unit_ids_def split: sum.splits)

lemma sample_parse: "parse_booking_data sample_booking = Inr
   \<lparr>booking_id = ''A1'', guest_name = [], room_name = ''101'', room_id = ''564321'',
             unit_id = ''1'', checkin = JStr ''2024-05-17'', checkout = JStr ''2024-05-19'', status = JStr ''confirmed'', adults = JInt 0,
             children = JInt 0, nights = 2, notes_text = JStr [],
             checkin_date = \<lparr>year = 2024, month = 5, day = 17\<rparr>, checkout_date =  \<lparr>year = 2024, month = 5, day = 19\<rparr>\<rparr>"
  by (simp add: parse_booking_data_def sample_booking_def Reservation_def resolve_room_name_def
       room_unit_ids_def room_lookup_get_def room_lookup_def eval_defs)

lemma Reservation_result:
  "strptime cin = Inr a \<Longrightarrow> strptime cout = Inr d \<Longrightarrow>
   Reservation bid gname rname rid uid cin cout st ad ch n nt =
     Inr \<lparr>booking_id = bid, guest_name = gname, room_name = rname, room_id = rid,
          unit_id = uid, checkin = cin, checkout = cout, status = st, adults = ad,
          children = ch, nights = n, notes_text = nt,
          checkin_date = dt_date a, checkout_date = dt_date d\<rparr>"
  by (simp add: Reservation_def)

lemma parse_booking_data_returns:
  assumes "strptime (dict_get_default b ''arrival'' (JStr [])) = Inr a"
    and "strptime (dict_get_default b ''departure'' (JStr [])) = Inr d"
  shows "\<exists>r. parse_booking_data b = Inr r \<and> nights r = datetime_sub_days d a \<and>
             checkin_date r = dt_date a \<and> checkout_date r = dt_date d \<and>
             room_name r = resolve_room_name b \<and>
             room_id r = py_str (fst (room_unit_ids b)) \<and>
             unit_id r = py_str (snd (room_unit_ids b)) \<and>
             status r = dict_get_default b ''status'' (JStr [])"
  using assms
  by (simp add: parse_booking_data_def Reservation_result split: prod.splits)

lemma parse_booking_data_Inr:
  assumes "parse_booking_data b = Inr r"
  shows "\<exists>a d. strptime (dict_get_default b ''arrival'' (JStr [])) = Inr a \<and>
               strptime (dict_get_default b ''departure'' (JStr [])) = Inr d"
  using assms
  by (auto simp: parse_booking_data_def split: prod.splits sum.splits)

text \<open>
  C2. For every raw booking record whose arrival and departure are accepted by the date
  parser, \<open>parse_booking_data\<close> returns a reservation whose night count is the day
  difference of its check-out and check-in dates. If either date is rejected, the call
  fails with the parser's exception (the failure the specification calls
  MalformedRecordError: ValueError for a malformed text, TypeError for a value that is
  no string) and no reservation is returned.
\<close>

theorem parse_booking_data_nights:
  "(\<forall>a d. strptime (dict_get_default b ''arrival'' (JStr [])) = Inr a \<and>
          strptime (dict_get_default b ''departure'' (JStr [])) = Inr d \<longrightarrow>
      (\<exists>r. parse_booking_data b = Inr r \<and>
           checkin_date r = dt_date a \<and> checkout_date r = dt_date d \<and>
           nights r = date_sub_days (checkout_date r) (checkin_date r))) \<and>
   (\<forall>e. strptime (dict_get_default b ''departure'' (JStr [])) = Inl e \<longrightarrow>
      parse_booking_data b = Inl e) \<and>
   (\<forall>e d. strptime (dict_get_default b ''departure'' (JStr [])) = Inr d \<and>
          strptime (dict_get_default b ''arrival'' (JStr [])) = Inl e \<longrightarrow>
      parse_booking_data b = Inl e) \<and>
   (\<forall>r. parse_booking_data b = Inr r \<longrightarrow>
      nights r = date_sub_days (checkout_date r) (checkin_date r))"
proof (intro conjI allI impI)
  fix a d
  assume h: "strptime (dict_get_default b ''arrival'' (JStr [])) = Inr a \<and>
             strptime (dict_get_default b ''departure'' (JStr [])) = Inr d"
  then obtain r where r: "parse_booking_data b = Inr r" "nights r = datetime_sub_days d a"
      "checkin_date r = dt_date a" "checkout_date r = dt_date d"
    using parse_booking_data_returns by blast
  moreover have "datetime_sub_days d a = date_sub_days (dt_date d) (dt_date a)"
    using h datetime_sub_days_strptime by blast
  ultimately show "\<exists>r. parse_booking_data b = Inr r \<and>
           checkin_date r = dt_date a \<and> checkout_date r = dt_date d \<and>
           nights r = date_sub_days (checkout_date r) (checkin_date r)"
    by auto
next
  fix e
  assume "strptime (dict_get_default b ''departure'' (JStr [])) = Inl e"
  then show "parse_booking_data b = Inl e"
    by (simp add: parse_booking_data_def split: prod.splits)
next
  fix e d
  assume "strptime (dict_get_default b ''departure'' (JStr [])) = Inr d \<and>
          strptime (dict_get_default b ''arrival'' (JStr [])) = Inl e"
  then show "parse_booking_data b = Inl e"
    by (simp add: parse_booking_data_def split: prod.splits)
next
  fix r
  assume r: "parse_booking_data b = Inr r"
  then obtain a d where h: "strptime (dict_get_default b ''arrival'' (JStr [])) = Inr a"
      "strptime (dict_get_default b ''departure'' (JStr [])) = Inr d"
    using parse_booking_data_Inr by blast
  then obtain r' where r': "parse_booking_data b = Inr r'" "nights r' = datetime_sub_days d a"
      "checkin_date r' = dt_date a" "checkout_date r' = dt_date d"
    using parse_booking_data_returns by blast
  moreover have "datetime_sub_days d a = date_sub_days (dt_date d) (dt_date a)"
    using h datetime_sub_days_strptime by blast
  ultimately show "nights r = date_sub_days (checkout_date r) (checkin_date r)"
    using r by auto
qed

lemma sample_dates:
  "strptime (dict_get_default sample_booking ''arrival'' (JStr [])) =
     Inr \<lparr>dt_date = \<lparr>year = 2024, month = 5, day = 17\<rparr>, hour = 0, minute = 0, second = 0, microsecond = 0\<rparr>"
  "strptime (dict_get_default sample_booking ''departure'' (JStr [])) =
     Inr \<lparr>dt_date = \<lparr>year = 2024, month = 5, day = 19\<rparr>, hour = 0, minute = 0, second = 0, microsecond = 0\<rparr>"
  by (simp_all add: sample_booking_def eval_defs)

lemma malformed_dates:
  "strptime (dict_get_default malformed_booking ''arrival'' (JStr [])) = Inl ValueError"
  "strptime (dict_get_default malformed_booking ''departure'' (JStr [])) =
     Inr \<lparr>dt_date = \<lparr>year = 2024, month = 3, day = 2\<rparr>, hour = 0, minute = 0, second = 0, microsecond = 0\<rparr>"
  by (simp_all add: malformed_booking_def eval_defs)

theorem parse_booking_data_nights_witness:
  "(\<exists>r. parse_booking_data sample_booking = Inr r \<and>
        checkin_date r = \<lparr>year = 2024, month = 5, day = 17\<rparr> \<and>
        checkout_date r = \<lparr>year = 2024, month = 5, day = 19\<rparr> \<and>
        nights r = 2) \<and>
   parse_booking_data malformed_booking = Inl ValueError"
proof -
  have "\<exists>r. parse_booking_data sample_booking = Inr r \<and>
        checkin_date r = \<lparr>year = 2024, month = 5, day = 17\<rparr> \<and>
        checkout_date r = \<lparr>year = 2024, month = 5, day = 19\<rparr> \<and>
        nights r = date_sub_days (checkout_date r) (checkin_date r)"
    using parse_booking_data_nights [of sample_booking] sample_dates by simp
  then have "\<exists>r. parse_booking_data sample_booking = Inr r \<and>
        checkin_date r = \<lparr>year = 2024, month = 5, day = 17\<rparr> \<and>
        checkout_date r = \<lparr>year = 2024, month = 5, day = 19\<rparr> \<and>
        nights r = 2"
    by (auto simp: date_sub_days_def toordinal_def days_before_year_def days_before_month_def is_leap_def)
  moreover have "parse_booking_data malformed_booking = Inl ValueError"
    using parse_booking_data_nights [of malformed_booking] malformed_dates by simp
  ultimately show ?thesis by blast
qed

text \<open>
  C6, as stated, fails: when the room identifier can be parsed and the unit identifier
  cannot, the room identifier is not parsed either. For the identifiers "007" and "x" the
  program keeps the text "007", where a separate conversion would give the integer 7,
  and the label is "Room 007-x".
\<close>

theorem room_unit_ids_each_counterexample:
  "room_unit_ids mixed_booking = (JStr ''007'', JStr ''x'') \<and>
   each_identifier_parsed mixed_booking = (JInt 7, JStr ''x'') \<and>
   resolve_room_name mixed_booking = ''Room 007-x''"
  by (simp add: mixed_booking_def room_unit_ids_def each_identifier_parsed_def
        resolve_room_name_def room_lookup_get_def room_lookup_def eval_defs)

text \<open>
  C6, amended. The two identifiers are converted together: when both can be parsed as
  integers the key is the pair of integers; when the conversion of either fails, both
  identifiers keep their raw values, the (possibly mixed-type) key matches no entry of
  the room table, and the label is the synthesized one.
\<close>

theorem room_unit_ids_both_or_raw:
  "(\<forall>i j. py_int (dict_get_default b ''roomId'' (JInt 0)) = Inr i \<and>
          py_int (dict_get_default b ''unitId'' (JInt 0)) = Inr j \<longrightarrow>
      room_unit_ids b = (JInt i, JInt j)) \<and>
   (\<forall>e. py_int (dict_get_default b ''roomId'' (JInt 0)) = Inl e \<or>
        py_int (dict_get_default b ''unitId'' (JInt 0)) = Inl e \<longrightarrow>
      room_unit_ids b =
        (dict_get_default b ''roomId'' (JInt 0), dict_get_default b ''unitId'' (JInt 0)) \<and>
      (\<forall>entry \<in> set room_lookup.
         \<not> (py_eq (dict_get_default b ''roomId'' (JInt 0)) (JInt (fst (fst entry))) \<and>
            py_eq (dict_get_default b ''unitId'' (JInt 0)) (JInt (snd (fst entry))))) \<and>
      resolve_room_name b =
        ''Room '' @ py_str (dict_get_default b ''roomId'' (JInt 0)) @ ''-'' @
        py_str (dict_get_default b ''unitId'' (JInt 0)))"
proof (intro conjI allI impI ballI)
  fix i j
  assume "py_int (dict_get_default b ''roomId'' (JInt 0)) = Inr i \<and>
          py_int (dict_get_default b ''unitId'' (JInt 0)) = Inr j"
  then show "room_unit_ids b = (JInt i, JInt j)"
    by (simp add: room_unit_ids_def)
next
  fix e
  assume h: "py_int (dict_get_default b ''roomId'' (JInt 0)) = Inl e \<or>
             py_int (dict_get_default b ''unitId'' (JInt 0)) = Inl e"
  then show ids: "room_unit_ids b =
        (dict_get_default b ''roomId'' (JInt 0), dict_get_default b ''unitId'' (JInt 0))"
    by (auto simp: room_unit_ids_def split: sum.splits)
  show "resolve_room_name b =
        ''Room '' @ py_str (dict_get_default b ''roomId'' (JInt 0)) @ ''-'' @
        py_str (dict_get_default b ''unitId'' (JInt 0))"
    using h by (simp add: resolve_room_name_def ids room_lookup_get_miss)
next
  fix e entry
  assume h: "py_int (dict_get_default b ''roomId'' (JInt 0)) = Inl e \<or>
             py_int (dict_get_default b ''unitId'' (JInt 0)) = Inl e"
  then show "\<not> (py_eq (dict_get_default b ''roomId'' (JInt 0)) (JInt (fst (fst entry))) \<and>
            py_eq (dict_get_default b ''unitId'' (JInt 0)) (JInt (snd (fst entry))))"
    using py_int_fails_not_eq by blast
qed

theorem room_unit_ids_both_or_raw_witness:
  "room_unit_ids sample_booking = (JInt 564321, JInt 1) \<and>
   room_unit_ids half_parsed_booking = (JInt 564321, JNull) \<and>
   resolve_room_name half_parsed_booking = ''Room 564321-None''"
proof -
  have "py_int (dict_get_default sample_booking ''roomId'' (JInt 0)) = Inr 564321 \<and>
        py_int (dict_get_default sample_booking ''unitId'' (JInt 0)) = Inr 1"
    by (simp add: sample_booking_def dict_get_default_def)
  then have "room_unit_ids sample_booking = (JInt 564321, JInt 1)"
    using room_unit_ids_both_or_raw [of sample_booking] by blast
  moreover have "py_int (dict_get_default half_parsed_booking ''unitId'' (JInt 0)) = Inl TypeError"
    by (simp add: half_parsed_booking_def dict_get_default_def)
  then have "room_unit_ids half_parsed_booking =
        (dict_get_default half_parsed_booking ''roomId'' (JInt 0),
         dict_get_default half_parsed_booking ''unitId'' (JInt 0)) \<and>
      resolve_room_name half_parsed_booking =
        ''Room '' @ py_str (dict_get_default half_parsed_booking ''roomId'' (JInt 0)) @ ''-'' @
        py_str (dict_get_default half_parsed_booking ''unitId'' (JInt 0))"
    using room_unit_ids_both_or_raw [of half_parsed_booking] by blast
  then have "room_unit_ids half_parsed_booking = (JInt 564321, JNull) \<and>
      resolve_room_name half_parsed_booking = ''Room 564321-None''"
    by (simp add: half_parsed_booking_def dict_get_default_def int_str_def nat_digits.simps digit_char_def)
  ultimately show ?thesis by blast
qed

text \<open>
  C7. The keys of the room table are pairwise distinct, so a pair has at most one label.
  The resolved label of a record is the table's label of its (room, unit) pair when the
  pair is in the table and "Room {roomId}-{unitId}" otherwise. The pair (564321, 1)
  resolves to "101" and the pair (999999, 1) to "Room 999999-1". The reservation that
  the parser returns carries this label.
\<close>

theorem room_name_resolution:
  "distinct (map fst room_lookup) \<and>
   (\<forall>i j. room_unit_ids b = (JInt i, JInt j) \<longrightarrow>
      resolve_room_name b =
        (case map_of room_lookup (i, j) of
           Some label \<Rightarrow> label
         | None \<Rightarrow> ''Room '' @ int_str i @ ''-'' @ int_str j)) \<and>
   ((\<forall>i j. room_unit_ids b \<noteq> (JInt i, JInt j)) \<longrightarrow>
      resolve_room_name b =
        ''Room '' @ py_str (fst (room_unit_ids b)) @ ''-'' @ py_str (snd (room_unit_ids b))) \<and>
   (room_unit_ids b = (JInt 564321, JInt 1) \<longrightarrow> resolve_room_name b = ''101'') \<and>
   (room_unit_ids b = (JInt 999999, JInt 1) \<longrightarrow> resolve_room_name b = ''Room 999999-1'') \<and>
   (\<forall>r. parse_booking_data b = Inr r \<longrightarrow>
      room_name r = resolve_room_name b \<and>
      room_id r = py_str (fst (room_unit_ids b)) \<and>
      unit_id r = py_str (snd (room_unit_ids b)))"
proof (intro conjI allI impI)
  show "distinct (map fst room_lookup)"
    by (rule room_lookup_distinct)
next
  fix i j
  assume "room_unit_ids b = (JInt i, JInt j)"
  then show "resolve_room_name b =
        (case map_of room_lookup (i, j) of
           Some label \<Rightarrow> label
         | None \<Rightarrow> ''Room '' @ int_str i @ ''-'' @ int_str j)"
    by (simp add: resolve_room_name_def room_lookup_get_ints split: option.splits)
next
  assume h: "\<forall>i j. room_unit_ids b \<noteq> (JInt i, JInt j)"
  with room_unit_ids_cases [of b]
  obtain e where e: "py_int (dict_get_default b ''roomId'' (JInt 0)) = Inl e \<or>
         py_int (dict_get_default b ''unitId'' (JInt 0)) = Inl e"
    and ids: "room_unit_ids b =
      (dict_get_default b ''roomId'' (JInt 0), dict_get_default b ''unitId'' (JInt 0))"
    by blast
  show "resolve_room_name b =
        ''Room '' @ py_str (fst (room_unit_ids b)) @ ''-'' @ py_str (snd (room_unit_ids b))"
    using e by (simp add: resolve_room_name_def ids room_lookup_get_miss)
next
  assume "room_unit_ids b = (JInt 564321, JInt 1)"
  then show "resolve_room_name b = ''101''"
    by (simp add: resolve_room_name_def room_lookup_get_ints room_lookup_def)
next
  assume "room_unit_ids b = (JInt 999999, JInt 1)"
  then show "resolve_room_name b = ''Room 999999-1''"
    by (simp add: resolve_room_name_def room_lookup_get_ints room_lookup_def
          int_str_def nat_digits.simps digit_char_def)
next
  fix r
  assume r: "parse_booking_data b = Inr r"
  then obtain a d where "strptime (dict_get_default b ''arrival'' (JStr [])) = Inr a"
      "strptime (dict_get_default b ''departure'' (JStr [])) = Inr d"
    using parse_booking_data_Inr by blast
  then have "\<exists>r'. parse_booking_data b = Inr r' \<and> room_name r' = resolve_room_name b \<and>
             room_id r' = py_str (fst (room_unit_ids b)) \<and>
             unit_id r' = py_str (snd (room_unit_ids b))"
    using parse_booking_data_returns [of b a d] by blast
  with r show "room_name r = resolve_room_name b"
    and "room_id r = py_str (fst (room_unit_ids b))"
    and "unit_id r = py_str (snd (room_unit_ids b))"
    by auto
qed

lemma unknown_room_ids: "room_unit_ids unknown_room_booking = (JInt 999999, JInt 1)"
  by (simp add: unknown_room_booking_def room_unit_ids_def eval_defs)

lemma sample_ids: "room_unit_ids sample_booking = (JInt 564321, JInt 1)"
  by (simp add: sample_booking_def room_unit_ids_def eval_defs)

theorem room_name_resolution_witness:
  "resolve_room_name sample_booking = ''101'' \<and>
   resolve_room_name unknown_room_booking = ''Room 999999-1'' \<and>
   (\<exists>r. parse_booking_data sample_booking = Inr r \<and> room_name r = ''101'')"
proof -
  have "resolve_room_name sample_booking = ''101''"
    using room_name_resolution [of sample_booking] sample_ids by blast
  moreover have "resolve_room_name unknown_room_booking = ''Room 999999-1''"
    using room_name_resolution [of unknown_room_booking] unknown_room_ids by blast
  moreover obtain r where r: "parse_booking_data sample_booking = Inr r"
    using parse_booking_data_returns [OF sample_dates] by blast
  then have "room_name r = resolve_room_name sample_booking"
    using room_name_resolution [of sample_booking] by blast
  ultimately show ?thesis using r by auto
qed

section \<open>Properties of the booking fetcher\<close>

lemma py_eq_refl: "py_eq a a"
  by (cases a) auto

lemma py_eq_sym: "py_eq a b \<Longrightarrow> py_eq b a"
  by (cases a; cases b) (auto split: if_splits)

lemma py_eq_trans: "py_eq a b \<Longrightarrow> py_eq b c \<Longrightarrow> py_eq a c"
  by (cases a; cases b; cases c) (auto split: if_splits)

lemma deduplicate_eq:
  "deduplicate xs seen combined =
     combined @ first_occurrences
       (filter (\<lambda>b. \<not> list_ex (\<lambda>s. py_eq s (dict_get b ''id'')) seen) xs)"
proof (induction xs arbitrary: seen combined)
  case Nil
  then show ?case by simp
next
  case (Cons b rest)
  have "filter (\<lambda>c. \<not> list_ex (\<lambda>s. py_eq s (dict_get c ''id'')) (dict_get b ''id'' # seen)) rest =
        filter (\<lambda>c. \<not> py_eq (dict_get b ''id'') (dict_get c ''id''))
          (filter (\<lambda>c. \<not> list_ex (\<lambda>s. py_eq s (dict_get c ''id'')) seen) rest)"
    by (auto intro: filter_cong)
  then show ?case
    using Cons.IH by (simp add: Let_def)
qed

lemma deduplicate_first_occurrences: "deduplicate xs [] [] = first_occurrences xs"
  by (simp add: deduplicate_eq)

lemma set_first_occurrences: "set (first_occurrences xs) \<subseteq> set xs"
  by (induction xs rule: first_occurrences.induct) auto

lemma first_occurrences_filterD:
  "c \<in> set (first_occurrences (filter Q bs)) \<Longrightarrow> c \<in> set (filter Q bs)"
  using set_first_occurrences [of "filter Q bs"] by (rule subsetD)

lemma subseq_first_occurrences: "subseq (first_occurrences xs) xs"
proof (induction xs rule: first_occurrences.induct)
  case 1
  then show ?case by simp
next
  case (2 b bs)
  have "subseq (filter (\<lambda>c. \<not> py_eq (dict_get b ''id'') (dict_get c ''id'')) bs) bs"
    by simp
  with 2 have "subseq (first_occurrences (filter (\<lambda>c. \<not> py_eq (dict_get b ''id'') (dict_get c ''id'')) bs)) bs"
    using subseq_order.order_trans by blast
  then show ?case by simp
qed

lemma distinct_ids_first_occurrences:
  "sorted_wrt (\<lambda>a b. \<not> py_eq (dict_get a ''id'') (dict_get b ''id'')) (first_occurrences xs)"
proof (induction xs rule: first_occurrences.induct)
  case 1
  then show ?case by simp
next
  case (2 b bs)
  have h: "\<forall>c \<in> set (first_occurrences (filter (\<lambda>c. \<not> py_eq (dict_get b ''id'') (dict_get c ''id'')) bs)).
          \<not> py_eq (dict_get b ''id'') (dict_get c ''id'')"
    by (auto dest: first_occurrences_filterD)
  show ?case
    unfolding first_occurrences.simps sorted_wrt.simps by (rule conjI [OF h 2])
qed

lemma covered_first_occurrences:
  "x \<in> set xs \<Longrightarrow> \<exists>y \<in> set (first_occurrences xs). py_eq (dict_get y ''id'') (dict_get x ''id'')"
proof (induction xs rule: first_occurrences.induct)
  case 1
  then show ?case by simp
next
  case (2 b bs)
  show ?case
  proof (cases "py_eq (dict_get b ''id'') (dict_get x ''id'')")
    case True
    then show ?thesis by auto
  next
    case False
    with "2.prems" have "x \<in> set (filter (\<lambda>c. \<not> py_eq (dict_get b ''id'') (dict_get c ''id'')) bs)"
      using py_eq_refl by auto
    with "2.IH" show ?thesis by auto
  qed
qed

lemma find_filter_implied:
  "(\<And>x. x \<in> set xs \<Longrightarrow> P x \<Longrightarrow> Q x) \<Longrightarrow> find P (filter Q xs) = find P xs"
  by (induction xs) auto

lemma first_first_occurrences:
  "y \<in> set (first_occurrences xs) \<Longrightarrow>
   find (\<lambda>x. py_eq (dict_get x ''id'') (dict_get y ''id'')) xs = Some y"
proof (induction xs rule: first_occurrences.induct)
  case 1
  then show ?case by simp
next
  case (2 b bs)
  show ?case
  proof (cases "y = b")
    case True
    then show ?thesis by (simp add: py_eq_refl)
  next
    case False
    let ?Q = "\<lambda>c. \<not> py_eq (dict_get b ''id'') (dict_get c ''id'')"
    from False "2.prems" have y: "y \<in> set (first_occurrences (filter ?Q bs))"
      by simp
    then have nb: "\<not> py_eq (dict_get b ''id'') (dict_get y ''id'')"
      by (auto dest: first_occurrences_filterD)
    have "find (\<lambda>x. py_eq (dict_get x ''id'') (dict_get y ''id'')) (filter ?Q bs) =
          find (\<lambda>x. py_eq (dict_get x ''id'') (dict_get y ''id'')) bs"
      using nb py_eq_trans by (intro find_filter_implied) blast
    with "2.IH" [OF y] nb show ?thesis by simp
  qed
qed

lemma count_first_occurrences:
  "length (filter (\<lambda>y. py_eq (dict_get y ''id'') k) (first_occurrences xs)) =
     (if \<exists>x \<in> set xs. py_eq (dict_get x ''id'') k then 1 else 0)"
proof (induction xs rule: first_occurrences.induct)
  case 1
  then show ?case by simp
next
  case (2 b bs)
  let ?Q = "\<lambda>c. \<not> py_eq (dict_get b ''id'') (dict_get c ''id'')"
  show ?case
  proof (cases "py_eq (dict_get b ''id'') k")
    case True
    have "\<forall>c \<in> set (first_occurrences (filter ?Q bs)). \<not> py_eq (dict_get c ''id'') k"
    proof
      fix c assume "c \<in> set (first_occurrences (filter ?Q bs))"
      then have "?Q c" by (auto dest: first_occurrences_filterD)
      then show "\<not> py_eq (dict_get c ''id'') k"
        using True py_eq_sym py_eq_trans by blast
    qed
    then have "filter (\<lambda>y. py_eq (dict_get y ''id'') k) (first_occurrences (filter ?Q bs)) = []"
      by (simp add: filter_empty_conv)
    with True show ?thesis by simp
  next
    case False
    have "(\<exists>x \<in> set (filter ?Q bs). py_eq (dict_get x ''id'') k) \<longleftrightarrow>
          (\<exists>x \<in> set bs. py_eq (dict_get x ''id'') k)"
      using False py_eq_trans by auto
    with False "2.IH" show ?thesis by simp
  qed
qed


lemma fetch_all_relevant_bookings_eq:
  assumes "date_plus_days target_date (- 30) = Inr start_date"
    and "date_plus_days target_date 30 = Inr end_date"
  shows "fetch_all_relevant_bookings get_bookings target_date =
     Inr (first_occurrences
            (fst (get_bookings (arrivals_query target_date)) @
             fst (get_bookings (departures_query target_date)) @
             fst (get_bookings (stay_through_query start_date target_date end_date))))"
  using assms by (simp add: fetch_all_relevant_bookings_def deduplicate_first_occurrences)

text \<open>
  C3. For every three result lists that the booking queries return, the fetch result is
  the concatenation arrivals, departures, stay-through with duplicates removed by booking
  identifier: it is \<open>first_occurrences\<close> of the concatenation. It is a subsequence of
  the concatenation (first-seen order, records unchanged), no two of its records have
  equal identifiers, every identifier of the concatenation is represented, and each
  record kept is the first of the concatenation with its identifier. So an identifier
  that occurs has exactly one record in the result; in particular, if records with the
  identifier "123" occur in the lists, exactly one of them remains, the first.
\<close>

theorem fetch_deduplicates_first_seen:
  assumes "date_plus_days target_date (- 30) = Inr start_date"
    and "date_plus_days target_date 30 = Inr end_date"
    and "fst (get_bookings (arrivals_query target_date)) = arrivals"
    and "fst (get_bookings (departures_query target_date)) = departures"
    and "fst (get_bookings (stay_through_query start_date target_date end_date)) = stay_through"
  shows "\<exists>combined.
     fetch_all_relevant_bookings get_bookings target_date = Inr combined \<and>
     combined = first_occurrences (arrivals @ departures @ stay_through) \<and>
     subseq combined (arrivals @ departures @ stay_through) \<and>
     sorted_wrt (\<lambda>a b. \<not> py_eq (dict_get a ''id'') (dict_get b ''id'')) combined \<and>
     (\<forall>x \<in> set (arrivals @ departures @ stay_through).
        \<exists>y \<in> set combined. py_eq (dict_get y ''id'') (dict_get x ''id'')) \<and>
     (\<forall>y \<in> set combined.
        find (\<lambda>x. py_eq (dict_get x ''id'') (dict_get y ''id''))
          (arrivals @ departures @ stay_through) = Some y) \<and>
     (\<forall>k. (\<exists>x \<in> set (arrivals @ departures @ stay_through). py_eq (dict_get x ''id'') k) \<longrightarrow>
        length (filter (\<lambda>y. py_eq (dict_get y ''id'') k) combined) = 1) \<and>
     ((\<exists>x \<in> set (arrivals @ departures @ stay_through). dict_get x ''id'' = JStr ''123'') \<longrightarrow>
        (\<exists>y. filter (\<lambda>y. dict_get y ''id'' = JStr ''123'') combined = [y] \<and>
             find (\<lambda>x. dict_get x ''id'' = JStr ''123'') (arrivals @ departures @ stay_through) =
               Some y))"
proof -
  let ?all = "arrivals @ departures @ stay_through"
  let ?combined = "first_occurrences ?all"
  have fetch: "fetch_all_relevant_bookings get_bookings target_date = Inr ?combined"
    using assms fetch_all_relevant_bookings_eq by simp
  have one: "\<forall>k. (\<exists>x \<in> set ?all. py_eq (dict_get x ''id'') k) \<longrightarrow>
        length (filter (\<lambda>y. py_eq (dict_get y ''id'') k) ?combined) = 1"
    using count_first_occurrences [of _ ?all] by simp
  have first: "\<forall>y \<in> set ?combined.
        find (\<lambda>x. py_eq (dict_get x ''id'') (dict_get y ''id'')) ?all = Some y"
    using first_first_occurrences by blast
  have particular: "(\<exists>x \<in> set ?all. dict_get x ''id'' = JStr ''123'') \<longrightarrow>
        (\<exists>y. filter (\<lambda>y. dict_get y ''id'' = JStr ''123'') ?combined = [y] \<and>
             find (\<lambda>x. dict_get x ''id'' = JStr ''123'') ?all = Some y)"
  proof
    assume "\<exists>x \<in> set ?all. dict_get x ''id'' = JStr ''123''"
    then have "\<exists>x \<in> set ?all. py_eq (dict_get x ''id'') (JStr ''123'')"
      by (simp only: py_eq_JStr_iff)
    then have "length (filter (\<lambda>y. py_eq (dict_get y ''id'') (JStr ''123'')) ?combined) = 1"
      using one by blast
    then have "length (filter (\<lambda>y. dict_get y ''id'' = JStr ''123'') ?combined) = 1"
      by (simp only: py_eq_JStr_iff)
    then obtain y where y: "filter (\<lambda>y. dict_get y ''id'' = JStr ''123'') ?combined = [y]"
      by (auto simp: length_Suc_conv)
    then have "y \<in> set (filter (\<lambda>y. dict_get y ''id'' = JStr ''123'') ?combined)"
      by simp
    then have "y \<in> set ?combined" and id: "dict_get y ''id'' = JStr ''123''"
      by simp_all
    then have "find (\<lambda>x. py_eq (dict_get x ''id'') (dict_get y ''id'')) ?all = Some y"
      using first by blast
    then have "find (\<lambda>x. dict_get x ''id'' = JStr ''123'') ?all = Some y"
      by (simp only: id py_eq_JStr_iff)
    with y show "\<exists>y. filter (\<lambda>y. dict_get y ''id'' = JStr ''123'') ?combined = [y] \<and>
             find (\<lambda>x. dict_get x ''id'' = JStr ''123'') ?all = Some y"
      by blast
  qed
  have cover: "\<forall>x \<in> set ?all. \<exists>y \<in> set ?combined. py_eq (dict_get y ''id'') (dict_get x ''id'')"
    using covered_first_occurrences by blast
  show ?thesis
    using fetch subseq_first_occurrences [of ?all] distinct_ids_first_occurrences [of ?all]
      cover first one particular
    by (intro exI [of _ ?combined] conjI) (rule refl | assumption)+
qed

lemma sample_date_window:
  "date_plus_days (ymd 2024 5 17) (- 30) = Inr 738993"
  "date_plus_days (ymd 2024 5 17) 30 = Inr 739053"
  by (simp_all add: date_plus_days_def ymd_def toordinal_def days_before_year_def
        days_before_month_def is_leap_def)

theorem fetch_deduplicates_first_seen_witness:
  "fetch_all_relevant_bookings sample_get_bookings (ymd 2024 5 17) =
     Inr [[(''id'', JStr ''123''), (''arrival'', JStr ''2024-05-17''), (''firstName'', JStr ''Ada'')],
          [(''id'', JInt 7), (''arrival'', JStr ''2024-05-17'')],
          [(''id'', JStr ''456''), (''departure'', JStr ''2024-05-17'')],
          [(''id'', JStr ''789'')]]"
proof -
  have "fst (sample_get_bookings (arrivals_query (ymd 2024 5 17))) = sample_arrivals"
    and "fst (sample_get_bookings (departures_query (ymd 2024 5 17))) = sample_departures"
    and "fst (sample_get_bookings (stay_through_query 738993 (ymd 2024 5 17) 739053)) =
           sample_stay_through"
    by (simp_all add: sample_get_bookings_def arrivals_query_def departures_query_def
          stay_through_query_def)
  from fetch_deduplicates_first_seen [OF sample_date_window this]
  have "fetch_all_relevant_bookings sample_get_bookings (ymd 2024 5 17) =
          Inr (first_occurrences (sample_arrivals @ sample_departures @ sample_stay_through))"
    by blast
  then show ?thesis
    by (simp add: sample_arrivals_def sample_departures_def sample_stay_through_def dict_get_def)
qed

section \<open>Properties of the token store and of authentication\<close>

text \<open>
  C4. For every stored credential bundle, \<open>get_tokens\<close> returns the bundle when no
  expiry is set, or when the expiry lies in the future; when the expiry has passed and a
  refresh token is present, it returns the bundle all the same; when the expiry has
  passed and no refresh token is present, it returns nothing; and with no bundle stored
  it returns nothing. A field is set, or present, when Python takes its value for true.
\<close>

theorem get_tokens_validity:
  "(bundle = [] \<longrightarrow> get_tokens env bundle = Inr None) \<and>
   (bundle \<noteq> [] \<and> \<not> truthy (dict_get bundle ''expires_at'') \<longrightarrow>
      get_tokens env bundle = Inr (Some bundle)) \<and>
   (\<forall>t. bundle \<noteq> [] \<and> truthy (dict_get bundle ''expires_at'') \<and>
        datetime_fromisoformat env (dict_get bundle ''expires_at'') = Inr t \<longrightarrow>
      (now env < t \<longrightarrow> get_tokens env bundle = Inr (Some bundle)) \<and>
      (t \<le> now env \<and> truthy (dict_get bundle ''refresh_token'') \<longrightarrow>
         get_tokens env bundle = Inr (Some bundle)) \<and>
      (t \<le> now env \<and> \<not> truthy (dict_get bundle ''refresh_token'') \<longrightarrow>
         get_tokens env bundle = Inr None))"
  by (simp add: get_tokens_def)

lemmas sample_auth_defs = sample_environment_def sample_bundle_def fresh_client_def
  dict_get_def dict_get_default_def dict_item_def datetime_fromisoformat_def os_getenv_def py_or_def

theorem get_tokens_validity_witness:
  "get_tokens sample_environment [] = Inr None \<and>
   get_tokens sample_environment (sample_bundle (JStr ''T1'') JNull JNull) =
     Inr (Some (sample_bundle (JStr ''T1'') JNull JNull)) \<and>
   get_tokens sample_environment (sample_bundle (JStr ''T1'') JNull (JStr ''2024-05-19T10:00:00'')) =
     Inr (Some (sample_bundle (JStr ''T1'') JNull (JStr ''2024-05-19T10:00:00''))) \<and>
   get_tokens sample_environment (sample_bundle (JStr ''T1'') (JStr ''R1'') (JStr ''2024-05-17T10:00:00'')) =
     Inr (Some (sample_bundle (JStr ''T1'') (JStr ''R1'') (JStr ''2024-05-17T10:00:00''))) \<and>
   get_tokens sample_environment (sample_bundle (JStr ''T1'') JNull (JStr ''2024-05-17T10:00:00'')) =
     Inr None"
  using get_tokens_validity [of "[]" sample_environment]
    get_tokens_validity [of "sample_bundle (JStr ''T1'') JNull JNull" sample_environment]
    get_tokens_validity [of "sample_bundle (JStr ''T1'') JNull (JStr ''2024-05-19T10:00:00'')"
       sample_environment]
    get_tokens_validity [of "sample_bundle (JStr ''T1'') (JStr ''R1'') (JStr ''2024-05-17T10:00:00'')"
       sample_environment]
    get_tokens_validity [of "sample_bundle (JStr ''T1'') JNull (JStr ''2024-05-17T10:00:00'')"
       sample_environment]
  by (simp add: sample_auth_defs)

text \<open>
  C5, as stated, fails at step 1: a stored bundle that has not expired, and has a refresh
  token, is not reused when its access token is empty (as after an exchange whose answer
  carried no token). The guard \<^verbatim>\<open>if self.access_token\<close> passes it over, and the
  long-life token supplied by the caller is stored and used instead.
\<close>

theorem authenticate_reuse_counterexample:
  "get_tokens sample_environment (sample_bundle JNull (JStr ''R1'') (JStr ''2024-05-19T10:00:00'')) =
     Inr (Some (sample_bundle JNull (JStr ''R1'') (JStr ''2024-05-19T10:00:00''))) \<and>
   authenticate sample_environment
       (fresh_client (sample_bundle JNull (JStr ''R1'') (JStr ''2024-05-19T10:00:00'')))
       (JStr ''LL'') JNull JNull =
     ((True, Text ''Authenticated with long-life token''),
      \<lparr>access_token = JStr ''LL'', refresh_token = JStr ''R1'',
       tokens = [(''access_token'', JStr ''LL''), (''refresh_token'', JNull),
                 (''token_type'', JStr ''long_life''), (''expires_at'', JNull),
                 (''last_updated'', JStr ''2024-05-18T10:00:00'')]\<rparr>)"
  by (simp add: get_tokens_def authenticate_def authenticate_try_def provided_credentials_def
        store_tokens_def sample_auth_defs Let_def)


lemma provided_credentials_outcome:
  "fst (provided_credentials env self1 ll rt ic) = fst (provided_credentials env self2 ll rt ic)"
  by (simp add: provided_credentials_def authenticate_with_refresh_token_def
        authenticate_with_invite_code_def Let_def split: sum.splits prod.splits)

lemma authenticate_no_bundle:
  "get_tokens env (tokens self) = Inr None \<Longrightarrow>
   authenticate_try env self ll rt ic = provided_credentials env self ll rt ic"
  by (simp add: authenticate_try_def)

lemma authenticate_outcome:
  "fst (authenticate env self ll rt ic) =
     (case fst (authenticate_try env self ll rt ic) of
        Inr result \<Rightarrow> result
      | Inl (RequestException m) \<Rightarrow>
          (False, TextWithError ''Authentication failed: '' (RequestException m))
      | Inl e \<Rightarrow> (False, TextWithError ''Unexpected error during authentication: '' e))"
  by (simp add: authenticate_def split: prod.splits sum.splits py_error.splits)

text \<open>
  C5, amended. The credential source is resolved in this order, the first match winning.
  (1) A stored bundle with no expiry set is reused; a stored bundle whose expiry has not
  passed is reused when its access token is non-empty, and is passed over otherwise, the
  outcome then being that of steps 2 to 5; a stored bundle whose expiry has passed and
  that has a refresh token is refreshed by a refresh-token exchange, whose failure ends
  the call. With no usable stored bundle: (2) a long-life token, from the caller or the
  environment, is stored as a long-life credential and used; (3) else a refresh token is
  exchanged and the result stored as refresh-based; (4) else an invite code is exchanged
  and the result stored as refresh-based; (5) else the call fails, reporting that no
  credentials were provided (the specification's NoCredentialsError).
\<close>

theorem authenticate_resolution_order:
  "(\<forall>a. tokens self \<noteq> [] \<and> dict_item (tokens self) ''access_token'' = Inr a \<and>
        \<not> truthy (dict_get (tokens self) ''expires_at'') \<longrightarrow>
      authenticate env self ll rt ic =
        ((True, Text ''Using stored authentication''),
         self\<lparr>access_token := a, refresh_token := dict_get (tokens self) ''refresh_token''\<rparr>)) \<and>
   (\<forall>a t. tokens self \<noteq> [] \<and> dict_item (tokens self) ''access_token'' = Inr a \<and>
        truthy (dict_get (tokens self) ''expires_at'') \<and>
        datetime_fromisoformat env (dict_get (tokens self) ''expires_at'') = Inr t \<and>
        now env < t \<and> truthy a \<longrightarrow>
      authenticate env self ll rt ic =
        ((True, Text ''Using stored authentication''),
         self\<lparr>access_token := a, refresh_token := dict_get (tokens self) ''refresh_token''\<rparr>)) \<and>
   (\<forall>a t. tokens self \<noteq> [] \<and> dict_item (tokens self) ''access_token'' = Inr a \<and>
        truthy (dict_get (tokens self) ''expires_at'') \<and>
        datetime_fromisoformat env (dict_get (tokens self) ''expires_at'') = Inr t \<and>
        now env < t \<and> \<not> truthy a \<longrightarrow>
      fst (authenticate env self ll rt ic) = fst (authenticate env (self\<lparr>tokens := []\<rparr>) ll rt ic)) \<and>
   (\<forall>a t token_data lifetime.
        tokens self \<noteq> [] \<and> dict_item (tokens self) ''access_token'' = Inr a \<and>
        truthy (dict_get (tokens self) ''expires_at'') \<and>
        datetime_fromisoformat env (dict_get (tokens self) ''expires_at'') = Inr t \<and>
        t \<le> now env \<and> truthy (dict_get (tokens self) ''refresh_token'') \<and>
        get_authentication_token env (dict_get (tokens self) ''refresh_token'') = Inr token_data \<and>
        timedelta_seconds (dict_get_default token_data ''expiresIn'' (JInt 0)) = Inr lifetime \<longrightarrow>
      authenticate env self ll rt ic =
        ((True, Text ''Successfully refreshed authentication''),
         \<lparr>access_token = dict_get token_data ''token'',
          refresh_token = dict_get (tokens self) ''refresh_token'',
          tokens = store_tokens env (dict_get token_data ''token'')
                     (dict_get (tokens self) ''refresh_token'') ''refresh''
                     (Some (now env + lifetime))\<rparr>)) \<and>
   (\<forall>a t m.
        tokens self \<noteq> [] \<and> dict_item (tokens self) ''access_token'' = Inr a \<and>
        truthy (dict_get (tokens self) ''expires_at'') \<and>
        datetime_fromisoformat env (dict_get (tokens self) ''expires_at'') = Inr t \<and>
        t \<le> now env \<and> truthy (dict_get (tokens self) ''refresh_token'') \<and>
        get_authentication_token env (dict_get (tokens self) ''refresh_token'') =
          Inl (RequestException m) \<longrightarrow>
      fst (authenticate env self ll rt ic) =
        (False, TextWithError ''Failed to refresh token: '' (RequestException m))) \<and>
   (get_tokens env (tokens self) = Inr None \<and>
    truthy (py_or ll (os_getenv env ''BEDS24_LONG_LIFE_TOKEN'')) \<longrightarrow>
      authenticate env self ll rt ic =
        ((True, Text ''Authenticated with long-life token''),
         self\<lparr>access_token := py_or ll (os_getenv env ''BEDS24_LONG_LIFE_TOKEN''),
              tokens := store_tokens env (py_or ll (os_getenv env ''BEDS24_LONG_LIFE_TOKEN''))
                          JNull ''long_life'' None\<rparr>)) \<and>
   (\<forall>token_data lifetime.
        get_tokens env (tokens self) = Inr None \<and>
        \<not> truthy (py_or ll (os_getenv env ''BEDS24_LONG_LIFE_TOKEN'')) \<and>
        truthy (py_or rt (os_getenv env ''BEDS24_REFRESH_TOKEN'')) \<and>
        get_authentication_token env (py_or rt (os_getenv env ''BEDS24_REFRESH_TOKEN'')) =
          Inr token_data \<and>
        timedelta_seconds (dict_get_default token_data ''expiresIn'' (JInt 0)) = Inr lifetime \<longrightarrow>
      authenticate env self ll rt ic =
        ((True, Text ''Authenticated with refresh token''),
         \<lparr>access_token = dict_get token_data ''token'',
          refresh_token = py_or rt (os_getenv env ''BEDS24_REFRESH_TOKEN''),
          tokens = store_tokens env (dict_get token_data ''token'')
                     (py_or rt (os_getenv env ''BEDS24_REFRESH_TOKEN'')) ''refresh''
                     (Some (now env + lifetime))\<rparr>)) \<and>
   (\<forall>token_data lifetime.
        get_tokens env (tokens self) = Inr None \<and>
        \<not> truthy (py_or ll (os_getenv env ''BEDS24_LONG_LIFE_TOKEN'')) \<and>
        \<not> truthy (py_or rt (os_getenv env ''BEDS24_REFRESH_TOKEN'')) \<and>
        truthy (py_or ic (os_getenv env ''BEDS24_INVITE_CODE'')) \<and>
        get_authentication_setup env (py_or ic (os_getenv env ''BEDS24_INVITE_CODE'')) =
          Inr token_data \<and>
        timedelta_seconds (dict_get_default token_data ''expiresIn'' (JInt 0)) = Inr lifetime \<longrightarrow>
      authenticate env self ll rt ic =
        ((True, Text ''Authenticated with invite code''),
         \<lparr>access_token = dict_get token_data ''token'',
          refresh_token = dict_get token_data ''refreshToken'',
          tokens = store_tokens env (dict_get token_data ''token'')
                     (dict_get token_data ''refreshToken'') ''refresh''
                     (Some (now env + lifetime))\<rparr>)) \<and>
   (get_tokens env (tokens self) = Inr None \<and>
    \<not> truthy (py_or ll (os_getenv env ''BEDS24_LONG_LIFE_TOKEN'')) \<and>
    \<not> truthy (py_or rt (os_getenv env ''BEDS24_REFRESH_TOKEN'')) \<and>
    \<not> truthy (py_or ic (os_getenv env ''BEDS24_INVITE_CODE'')) \<longrightarrow>
      authenticate env self ll rt ic =
        ((False, Text ''No authentication credentials provided''), self))"
proof (intro conjI allI impI)
  fix a
  assume "tokens self \<noteq> [] \<and> dict_item (tokens self) ''access_token'' = Inr a \<and>
        \<not> truthy (dict_get (tokens self) ''expires_at'')"
  then show "authenticate env self ll rt ic =
        ((True, Text ''Using stored authentication''),
         self\<lparr>access_token := a, refresh_token := dict_get (tokens self) ''refresh_token''\<rparr>)"
    by (simp add: authenticate_def authenticate_try_def get_tokens_def Let_def)
next
  fix a t
  assume "tokens self \<noteq> [] \<and> dict_item (tokens self) ''access_token'' = Inr a \<and>
        truthy (dict_get (tokens self) ''expires_at'') \<and>
        datetime_fromisoformat env (dict_get (tokens self) ''expires_at'') = Inr t \<and>
        now env < t \<and> truthy a"
  then show "authenticate env self ll rt ic =
        ((True, Text ''Using stored authentication''),
         self\<lparr>access_token := a, refresh_token := dict_get (tokens self) ''refresh_token''\<rparr>)"
    by (simp add: authenticate_def authenticate_try_def get_tokens_def Let_def)
next
  fix a t
  assume h: "tokens self \<noteq> [] \<and> dict_item (tokens self) ''access_token'' = Inr a \<and>
        truthy (dict_get (tokens self) ''expires_at'') \<and>
        datetime_fromisoformat env (dict_get (tokens self) ''expires_at'') = Inr t \<and>
        now env < t \<and> \<not> truthy a"
  then have "authenticate_try env self ll rt ic =
      provided_credentials env
        (self\<lparr>access_token := a, refresh_token := dict_get (tokens self) ''refresh_token''\<rparr>) ll rt ic"
    by (simp add: authenticate_try_def get_tokens_def Let_def)
  moreover have "authenticate_try env (self\<lparr>tokens := []\<rparr>) ll rt ic =
      provided_credentials env (self\<lparr>tokens := []\<rparr>) ll rt ic"
    by (simp add: authenticate_try_def get_tokens_def)
  ultimately show "fst (authenticate env self ll rt ic) =
      fst (authenticate env (self\<lparr>tokens := []\<rparr>) ll rt ic)"
    using provided_credentials_outcome
      [of env "self\<lparr>access_token := a, refresh_token := dict_get (tokens self) ''refresh_token''\<rparr>"
          ll rt ic "self\<lparr>tokens := []\<rparr>"]
    by (simp add: authenticate_outcome)
next
  fix a t token_data lifetime
  assume "tokens self \<noteq> [] \<and> dict_item (tokens self) ''access_token'' = Inr a \<and>
        truthy (dict_get (tokens self) ''expires_at'') \<and>
        datetime_fromisoformat env (dict_get (tokens self) ''expires_at'') = Inr t \<and>
        t \<le> now env \<and> truthy (dict_get (tokens self) ''refresh_token'') \<and>
        get_authentication_token env (dict_get (tokens self) ''refresh_token'') = Inr token_data \<and>
        timedelta_seconds (dict_get_default token_data ''expiresIn'' (JInt 0)) = Inr lifetime"
  then show "authenticate env self ll rt ic =
        ((True, Text ''Successfully refreshed authentication''),
         \<lparr>access_token = dict_get token_data ''token'',
          refresh_token = dict_get (tokens self) ''refresh_token'',
          tokens = store_tokens env (dict_get token_data ''token'')
                     (dict_get (tokens self) ''refresh_token'') ''refresh''
                     (Some (now env + lifetime))\<rparr>)"
    by (simp add: authenticate_def authenticate_try_def get_tokens_def Let_def
          authenticate_with_refresh_token_def)
next
  fix a t m
  assume "tokens self \<noteq> [] \<and> dict_item (tokens self) ''access_token'' = Inr a \<and>
        truthy (dict_get (tokens self) ''expires_at'') \<and>
        datetime_fromisoformat env (dict_get (tokens self) ''expires_at'') = Inr t \<and>
        t \<le> now env \<and> truthy (dict_get (tokens self) ''refresh_token'') \<and>
        get_authentication_token env (dict_get (tokens self) ''refresh_token'') =
          Inl (RequestException m)"
  then show "fst (authenticate env self ll rt ic) =
        (False, TextWithError ''Failed to refresh token: '' (RequestException m))"
    by (simp add: authenticate_def authenticate_try_def get_tokens_def Let_def
          authenticate_with_refresh_token_def)
next
  assume "get_tokens env (tokens self) = Inr None \<and>
    truthy (py_or ll (os_getenv env ''BEDS24_LONG_LIFE_TOKEN''))"
  then show "authenticate env self ll rt ic =
        ((True, Text ''Authenticated with long-life token''),
         self\<lparr>access_token := py_or ll (os_getenv env ''BEDS24_LONG_LIFE_TOKEN''),
              tokens := store_tokens env (py_or ll (os_getenv env ''BEDS24_LONG_LIFE_TOKEN''))
                          JNull ''long_life'' None\<rparr>)"
    by (simp add: authenticate_def authenticate_no_bundle provided_credentials_def Let_def)
next
  fix token_data lifetime
  assume "get_tokens env (tokens self) = Inr None \<and>
        \<not> truthy (py_or ll (os_getenv env ''BEDS24_LONG_LIFE_TOKEN'')) \<and>
        truthy (py_or rt (os_getenv env ''BEDS24_REFRESH_TOKEN'')) \<and>
        get_authentication_token env (py_or rt (os_getenv env ''BEDS24_REFRESH_TOKEN'')) =
          Inr token_data \<and>
        timedelta_seconds (dict_get_default token_data ''expiresIn'' (JInt 0)) = Inr lifetime"
  then show "authenticate env self ll rt ic =
        ((True, Text ''Authenticated with refresh token''),
         \<lparr>access_token = dict_get token_data ''token'',
          refresh_token = py_or rt (os_getenv env ''BEDS24_REFRESH_TOKEN''),
          tokens = store_tokens env (dict_get token_data ''token'')
                     (py_or rt (os_getenv env ''BEDS24_REFRESH_TOKEN'')) ''refresh''
                     (Some (now env + lifetime))\<rparr>)"
    by (simp add: authenticate_def authenticate_no_bundle provided_credentials_def Let_def
          authenticate_with_refresh_token_def)
next
  fix token_data lifetime
  assume "get_tokens env (tokens self) = Inr None \<and>
        \<not> truthy (py_or ll (os_getenv env ''BEDS24_LONG_LIFE_TOKEN'')) \<and>
        \<not> truthy (py_or rt (os_getenv env ''BEDS24_REFRESH_TOKEN'')) \<and>
        truthy (py_or ic (os_getenv env ''BEDS24_INVITE_CODE'')) \<and>
        get_authentication_setup env (py_or ic (os_getenv env ''BEDS24_INVITE_CODE'')) =
          Inr token_data \<and>
        timedelta_seconds (dict_get_default token_data ''expiresIn'' (JInt 0)) = Inr lifetime"
  then show "authenticate env self ll rt ic =
        ((True, Text ''Authenticated with invite code''),
         \<lparr>access_token = dict_get token_data ''token'',
          refresh_token = dict_get token_data ''refreshToken'',
          tokens = store_tokens env (dict_get token_data ''token'')
                     (dict_get token_data ''refreshToken'') ''refresh''
                     (Some (now env + lifetime))\<rparr>)"
    by (simp add: authenticate_def authenticate_no_bundle provided_credentials_def Let_def
          authenticate_with_invite_code_def)
next
  assume "get_tokens env (tokens self) = Inr None \<and>
    \<not> truthy (py_or ll (os_getenv env ''BEDS24_LONG_LIFE_TOKEN'')) \<and>
    \<not> truthy (py_or rt (os_getenv env ''BEDS24_REFRESH_TOKEN'')) \<and>
    \<not> truthy (py_or ic (os_getenv env ''BEDS24_INVITE_CODE''))"
  then show "authenticate env self ll rt ic =
        ((False, Text ''No authentication credentials provided''), self)"
    by (simp add: authenticate_def authenticate_no_bundle provided_credentials_def Let_def)
qed


lemmas sample_eval = sample_auth_defs get_tokens_def store_tokens_def

theorem authenticate_resolution_order_witness:
  "authenticate sample_environment (fresh_client (sample_bundle (JStr ''T1'') JNull JNull))
       JNull JNull JNull =
     ((True, Text ''Using stored authentication''),
      \<lparr>access_token = JStr ''T1'', refresh_token = JNull,
       tokens = sample_bundle (JStr ''T1'') JNull JNull\<rparr>) \<and>
   authenticate sample_environment
       (fresh_client (sample_bundle (JStr ''T1'') JNull (JStr ''2024-05-19T10:00:00'')))
       (JStr ''LL'') JNull JNull =
     ((True, Text ''Using stored authentication''),
      \<lparr>access_token = JStr ''T1'', refresh_token = JNull,
       tokens = sample_bundle (JStr ''T1'') JNull (JStr ''2024-05-19T10:00:00'')\<rparr>) \<and>
   fst (authenticate sample_environment
       (fresh_client (sample_bundle JNull (JStr ''R1'') (JStr ''2024-05-19T10:00:00'')))
       JNull JNull JNull) =
     fst (authenticate sample_environment (fresh_client []) JNull JNull JNull) \<and>
   authenticate sample_environment
       (fresh_client (sample_bundle (JStr ''T1'') (JStr ''R1'') (JStr ''2024-05-17T10:00:00'')))
       (JStr ''LL'') JNull JNull =
     ((True, Text ''Successfully refreshed authentication''),
      \<lparr>access_token = JStr ''T2'', refresh_token = JStr ''R1'',
       tokens = [(''access_token'', JStr ''T2''), (''refresh_token'', JStr ''R1''),
                 (''token_type'', JStr ''refresh''), (''expires_at'', JStr ''2024-05-18T10:00:00''),
                 (''last_updated'', JStr ''2024-05-18T10:00:00'')]\<rparr>) \<and>
   fst (authenticate sample_environment
       (fresh_client (sample_bundle (JStr ''T1'') (JStr ''R0'') (JStr ''2024-05-17T10:00:00'')))
       (JStr ''LL'') JNull JNull) =
     (False, TextWithError ''Failed to refresh token: '' (RequestException ''401 Client Error'')) \<and>
   authenticate sample_environment (fresh_client []) (JStr ''LL'') (JStr ''R1'') (JStr ''INVITE'') =
     ((True, Text ''Authenticated with long-life token''),
      \<lparr>access_token = JStr ''LL'', refresh_token = JNull,
       tokens = [(''access_token'', JStr ''LL''), (''refresh_token'', JNull),
                 (''token_type'', JStr ''long_life''), (''expires_at'', JNull),
                 (''last_updated'', JStr ''2024-05-18T10:00:00'')]\<rparr>) \<and>
   authenticate sample_environment (fresh_client []) JNull (JStr ''R1'') (JStr ''INVITE'') =
     ((True, Text ''Authenticated with refresh token''),
      \<lparr>access_token = JStr ''T2'', refresh_token = JStr ''R1'',
       tokens = [(''access_token'', JStr ''T2''), (''refresh_token'', JStr ''R1''),
                 (''token_type'', JStr ''refresh''), (''expires_at'', JStr ''2024-05-18T10:00:00''),
                 (''last_updated'', JStr ''2024-05-18T10:00:00'')]\<rparr>) \<and>
   authenticate sample_environment (fresh_client []) JNull (JStr []) (JStr ''INVITE'') =
     ((True, Text ''Authenticated with invite code''),
      \<lparr>access_token = JStr ''T3'', refresh_token = JStr ''R3'',
       tokens = [(''access_token'', JStr ''T3''), (''refresh_token'', JStr ''R3''),
                 (''token_type'', JStr ''refresh''), (''expires_at'', JStr ''2024-05-18T10:00:00''),
                 (''last_updated'', JStr ''2024-05-18T10:00:00'')]\<rparr>) \<and>
   authenticate sample_environment (fresh_client []) JNull (JStr []) JNull =
     ((False, Text ''No authentication credentials provided''), fresh_client [])"
proof (intro conjI)
  show "authenticate sample_environment (fresh_client (sample_bundle (JStr ''T1'') JNull JNull))
       JNull JNull JNull =
     ((True, Text ''Using stored authentication''),
      \<lparr>access_token = JStr ''T1'', refresh_token = JNull,
       tokens = sample_bundle (JStr ''T1'') JNull JNull\<rparr>)"
    using authenticate_resolution_order
      [of "fresh_client (sample_bundle (JStr ''T1'') JNull JNull)" sample_environment JNull JNull JNull]
    by (simp add: sample_eval)
next
  show "authenticate sample_environment
       (fresh_client (sample_bundle (JStr ''T1'') JNull (JStr ''2024-05-19T10:00:00'')))
       (JStr ''LL'') JNull JNull =
     ((True, Text ''Using stored authentication''),
      \<lparr>access_token = JStr ''T1'', refresh_token = JNull,
       tokens = sample_bundle (JStr ''T1'') JNull (JStr ''2024-05-19T10:00:00'')\<rparr>)"
    using authenticate_resolution_order
      [of "fresh_client (sample_bundle (JStr ''T1'') JNull (JStr ''2024-05-19T10:00:00''))"
          sample_environment "JStr ''LL''" JNull JNull]
    by (simp add: sample_eval)
next
  show "fst (authenticate sample_environment
       (fresh_client (sample_bundle JNull (JStr ''R1'') (JStr ''2024-05-19T10:00:00'')))
       JNull JNull JNull) =
     fst (authenticate sample_environment (fresh_client []) JNull JNull JNull)"
    using authenticate_resolution_order
      [of "fresh_client (sample_bundle JNull (JStr ''R1'') (JStr ''2024-05-19T10:00:00''))"
          sample_environment JNull JNull JNull]
    by (simp add: sample_eval)
next
  show "authenticate sample_environment
       (fresh_client (sample_bundle (JStr ''T1'') (JStr ''R1'') (JStr ''2024-05-17T10:00:00'')))
       (JStr ''LL'') JNull JNull =
     ((True, Text ''Successfully refreshed authentication''),
      \<lparr>access_token = JStr ''T2'', refresh_token = JStr ''R1'',
       tokens = [(''access_token'', JStr ''T2''), (''refresh_token'', JStr ''R1''),
                 (''token_type'', JStr ''refresh''), (''expires_at'', JStr ''2024-05-18T10:00:00''),
                 (''last_updated'', JStr ''2024-05-18T10:00:00'')]\<rparr>)"
    using authenticate_resolution_order
      [of "fresh_client (sample_bundle (JStr ''T1'') (JStr ''R1'') (JStr ''2024-05-17T10:00:00''))"
          sample_environment "JStr ''LL''" JNull JNull]
    by (simp add: sample_eval)
next
  show "fst (authenticate sample_environment
       (fresh_client (sample_bundle (JStr ''T1'') (JStr ''R0'') (JStr ''2024-05-17T10:00:00'')))
       (JStr ''LL'') JNull JNull) =
     (False, TextWithError ''Failed to refresh token: '' (RequestException ''401 Client Error''))"
    using authenticate_resolution_order
      [of "fresh_client (sample_bundle (JStr ''T1'') (JStr ''R0'') (JStr ''2024-05-17T10:00:00''))"
          sample_environment "JStr ''LL''" JNull JNull]
    by (simp add: sample_eval)
next
  show "authenticate sample_environment (fresh_client []) (JStr ''LL'') (JStr ''R1'') (JStr ''INVITE'') =
     ((True, Text ''Authenticated with long-life token''),
      \<lparr>access_token = JStr ''LL'', refresh_token = JNull,
       tokens = [(''access_token'', JStr ''LL''), (''refresh_token'', JNull),
                 (''token_type'', JStr ''long_life''), (''expires_at'', JNull),
                 (''last_updated'', JStr ''2024-05-18T10:00:00'')]\<rparr>)"
    using authenticate_resolution_order
      [of "fresh_client []" sample_environment "JStr ''LL''" "JStr ''R1''" "JStr ''INVITE''"]
    by (simp add: sample_eval)
next
  show "authenticate sample_environment (fresh_client []) JNull (JStr ''R1'') (JStr ''INVITE'') =
     ((True, Text ''Authenticated with refresh token''),
      \<lparr>access_token = JStr ''T2'', refresh_token = JStr ''R1'',
       tokens = [(''access_token'', JStr ''T2''), (''refresh_token'', JStr ''R1''),
                 (''token_type'', JStr ''refresh''), (''expires_at'', JStr ''2024-05-18T10:00:00''),
                 (''last_updated'', JStr ''2024-05-18T10:00:00'')]\<rparr>)"
    using authenticate_resolution_order
      [of "fresh_client []" sample_environment JNull "JStr ''R1''" "JStr ''INVITE''"]
    by (simp add: sample_eval)
next
  show "authenticate sample_environment (fresh_client []) JNull (JStr []) (JStr ''INVITE'') =
     ((True, Text ''Authenticated with invite code''),
      \<lparr>access_token = JStr ''T3'', refresh_token = JStr ''R3'',
       tokens = [(''access_token'', JStr ''T3''), (''refresh_token'', JStr ''R3''),
                 (''token_type'', JStr ''refresh''), (''expires_at'', JStr ''2024-05-18T10:00:00''),
                 (''last_updated'', JStr ''2024-05-18T10:00:00'')]\<rparr>)"
    using authenticate_resolution_order
      [of "fresh_client []" sample_environment JNull "JStr []" "JStr ''INVITE''"]
    by (simp add: sample_eval)
next
  show "authenticate sample_environment (fresh_client []) JNull (JStr []) JNull =
     ((False, Text ''No authentication credentials provided''), fresh_client [])"
    using authenticate_resolution_order
      [of "fresh_client []" sample_environment JNull "JStr []" JNull]
    by (simp add: sample_eval)
qed

end
